theory Spec2Isabelle
  imports Complex_Main "HOL-Library.Word"
begin

section \<open>Strings and formatting\<close>

text \<open>
  Go strings are byte sequences; they are modelled as \<open>string\<close> (a list of 8-bit
  characters). The client uses three string operations of the standard library:
  \<^verbatim>\<open>strings.ReplaceAll\<close>, concatenation and the verb \<^verbatim>\<open>%d\<close> of
  \<^verbatim>\<open>fmt.Sprintf\<close>.
\<close>

text \<open>
  \<^verbatim>\<open>strings.ReplaceAll(s, old, new)\<close> replaces the non-overlapping occurrences of
  \<open>old\<close> in \<open>s\<close>, found from left to right; the replacement is not scanned again.
  The client only calls it with the non-empty placeholders \<^verbatim>\<open>$key$\<close> and
  \<^verbatim>\<open>$action$\<close> as \<open>old\<close>; an empty \<open>old\<close> (where Go inserts \<open>new\<close> between the
  UTF-8 sequences of \<open>s\<close>) is outside the model and leaves \<open>s\<close> as it is.
\<close>

function ReplaceAll :: "string \<Rightarrow> string \<Rightarrow> string \<Rightarrow> string" where
  "ReplaceAll [] old new = []"
| "ReplaceAll (c # cs) old new =
     (if old \<noteq> [] \<and> take (length old) (c # cs) = old
      then new @ ReplaceAll (drop (length old) (c # cs)) old new
      else c # ReplaceAll cs old new)"
  by pat_completeness auto
termination
  by (relation "measure (\<lambda>(s, old, new). length s)") auto

text \<open>\<^verbatim>\<open>strings.Contains(s, sub)\<close>: \<open>sub\<close> occurs in \<open>s\<close> as a contiguous run.\<close>

fun Contains :: "string \<Rightarrow> string \<Rightarrow> bool" where
  "Contains [] sub = (sub = [])"
| "Contains (c # cs) sub = (take (length sub) (c # cs) = sub \<or> Contains cs sub)"

text \<open>The decimal digits of a natural number, most significant first (\<^verbatim>\<open>%d\<close>).\<close>

fun decimal :: "nat \<Rightarrow> string" where
  "decimal n =
     (if n < 10 then [''0123456789'' ! n]
      else decimal (n div 10) @ [''0123456789'' ! (n mod 10)])"

declare decimal.simps [simp del]

text \<open>
  \<^verbatim>\<open>fmt.Sprintf("%d", v)\<close> for a \<^verbatim>\<open>uint64\<close> and for an \<^verbatim>\<open>int\<close>
  (64 bits, two's complement, as on the 64-bit platforms).
\<close>

definition Sprintf_d_uint64 :: "64 word \<Rightarrow> string" where
  "Sprintf_d_uint64 v = decimal (unat v)"

definition Sprintf_d_int :: "64 word \<Rightarrow> string" where
  "Sprintf_d_int v =
     (if sint v < 0 then CHR ''-'' # decimal (nat (- sint v)) else decimal (nat (sint v)))"

section \<open>JSON values and the decoder of \<^verbatim>\<open>encoding/json\<close>\<close>

text \<open>
  Every operation that reads a response body passes it to
  \<^verbatim>\<open>json.NewDecoder(resp.Body).Decode(&v)\<close>. The decoder belongs to the Go standard
  library, not to the client; it is modelled here after the documentation of
  \<^verbatim>\<open>json.Unmarshal\<close>, for the target types the client declares.

  A body is modelled by the first JSON value the decoder reads from it, as a syntax
  tree: \<open>JNumber\<close> holds the number literal as written, \<open>JString\<close> the string it
  denotes, \<open>JObject\<close> the members in the order of the text (names may repeat).
  \<open>Unreadable\<close> is a body from which no JSON value can be read (empty, cut off or
  not JSON).
\<close>

datatype json =
    JNull
  | JBool bool
  | JNumber string
  | JString string
  | JArray "json list"
  | JObject "(string \<times> json) list"

datatype body = Unreadable | Value json

text \<open>
  What the decoder takes from the rest of the standard library is a parameter of the
  model: the type \<open>'f\<close> of \<^verbatim>\<open>float64\<close> values with
  \<^verbatim>\<open>strconv.ParseFloat\<close> and its zero value, and the type \<open>'t\<close> of
  \<^verbatim>\<open>time.Time\<close> values with the parser that \<^verbatim>\<open>Time.UnmarshalJSON\<close> applies to a
  JSON string, and its zero value. \<open>None\<close> is a parse error.
\<close>

record ('f, 't) codec =
  ParseFloat :: "string \<Rightarrow> 'f option"
  zero_float64 :: 'f
  ParseTime :: "string \<Rightarrow> 't option"
  zero_Time :: 't

subsection \<open>Member names\<close>

text \<open>
  An object member is matched to a struct field by its name, "preferring an exact match
  but also accepting a case-insensitive match". The case-insensitive comparison is
  Unicode simple case folding; for the ASCII names of this client it identifies the two
  cases of a letter, the Kelvin sign (U+212A, bytes E2 84 AA) with \<open>K\<close> and the long s
  (U+017F, bytes C5 BF) with \<open>S\<close>. \<open>foldName\<close> maps a name to its folded form; bytes
  of other non-ASCII characters stay as they are and match no ASCII name.
\<close>

definition upper :: "char \<Rightarrow> char" where
  "upper c =
     (case map_of (zip ''abcdefghijklmnopqrstuvwxyz'' ''ABCDEFGHIJKLMNOPQRSTUVWXYZ'') c of
        Some u \<Rightarrow> u
      | None \<Rightarrow> c)"

function foldName :: "string \<Rightarrow> string" where
  "foldName [] = []"
| "foldName (c # cs) =
     (if c = CHR 0xE2 \<and> take 2 cs = [CHR 0x84, CHR 0xAA] then CHR ''K'' # foldName (drop 2 cs)
      else if c = CHR 0xC5 \<and> take 1 cs = [CHR 0xBF] then CHR ''S'' # foldName (drop 1 cs)
      else upper c # foldName cs)"
  by pat_completeness auto
termination
  by (relation "measure length") auto

definition match_name :: "string list \<Rightarrow> string \<Rightarrow> string option" where
  "match_name names key =
     (case find (\<lambda>n. n = key) names of
        Some n \<Rightarrow> Some n
      | None \<Rightarrow> find (\<lambda>n. foldName n = foldName key) names)"

subsection \<open>Scalars\<close>

text \<open>
  A JSON value is stored into a field that already holds a value \<open>cur\<close> (the zero value,
  or what an earlier member with the same name stored). The documentation of
  \<^verbatim>\<open>Unmarshal\<close>: "unmarshaling a JSON null into any other Go type [than an
  interface, map, pointer or slice] has no effect on the value and produces no error";
  and "if a JSON value is not appropriate for a given target type, or if a JSON number
  overflows the target type, Unmarshal skips that field and completes the unmarshaling
  as best it can", and then returns an \<^verbatim>\<open>UnmarshalTypeError\<close>. Every operation of
  the client drops the target when \<^verbatim>\<open>Decode\<close> returns an error, so the model keeps
  no target in that case: \<open>None\<close> stands for the error.
\<close>

definition store_string :: "json \<Rightarrow> string \<Rightarrow> string option" where
  "store_string j cur =
     (case j of JNull \<Rightarrow> Some cur | JString s \<Rightarrow> Some s | _ \<Rightarrow> None)"

definition store_float64 :: "('f, 't) codec \<Rightarrow> json \<Rightarrow> 'f \<Rightarrow> 'f option" where
  "store_float64 K j cur =
     (case j of JNull \<Rightarrow> Some cur | JNumber lit \<Rightarrow> ParseFloat K lit | _ \<Rightarrow> None)"

definition store_Time :: "('f, 't) codec \<Rightarrow> json \<Rightarrow> 't \<Rightarrow> 't option" where
  "store_Time K j cur =
     (case j of JNull \<Rightarrow> Some cur | JString s \<Rightarrow> ParseTime K s | _ \<Rightarrow> None)"

text \<open>
  \<^verbatim>\<open>strconv.ParseUint(lit, 10, 64)\<close>: a non-empty run of decimal digits, no sign,
  fraction or exponent. The range of the field's type is checked by \<open>store_uint\<close>.
\<close>

definition isDigit :: "char \<Rightarrow> bool" where
  "isDigit c = (48 \<le> (of_char c :: nat) \<and> (of_char c :: nat) \<le> 57)"

definition ParseUint :: "string \<Rightarrow> nat option" where
  "ParseUint lit =
     (if lit \<noteq> [] \<and> list_all isDigit lit
      then Some (foldl (\<lambda>a c. 10 * a + ((of_char c :: nat) - 48)) 0 lit)
      else None)"

definition store_uint :: "json \<Rightarrow> 'a::len word \<Rightarrow> 'a word option" where
  "store_uint j cur =
     (case j of
        JNull \<Rightarrow> Some cur
      | JNumber lit \<Rightarrow>
          (case ParseUint lit of
             None \<Rightarrow> None
           | Some n \<Rightarrow> if n < 2 ^ LENGTH('a) then Some (word_of_nat n) else None)
      | _ \<Rightarrow> None)"

subsection \<open>Structs and slices\<close>

text \<open>
  A JSON object is stored into a struct member by member, in the order of the text;
  a member whose name matches no field is skipped, and a member whose name matches a
  field already stored is stored over it. \<open>store_members\<close> ends with the error at the
  first member that cannot be stored. \<open>null\<close> leaves a struct as it is; any other
  value that is not an object is an error.
\<close>

fun store_members :: "('a \<Rightarrow> string \<times> json \<Rightarrow> 'a option) \<Rightarrow> (string \<times> json) list \<Rightarrow> 'a \<Rightarrow> 'a option" where
  "store_members st [] cur = Some cur"
| "store_members st (m # ms) cur =
     (case st cur m of None \<Rightarrow> None | Some cur' \<Rightarrow> store_members st ms cur')"

definition store_struct :: "('a \<Rightarrow> string \<times> json \<Rightarrow> 'a option) \<Rightarrow> json \<Rightarrow> 'a \<Rightarrow> 'a option" where
  "store_struct st j cur =
     (case j of JNull \<Rightarrow> Some cur | JObject ms \<Rightarrow> store_members st ms cur | _ \<Rightarrow> None)"

text \<open>
  A Go slice is \<^verbatim>\<open>nil\<close> or a window of a backing array. \<open>Slice xs rest\<close> is a
  non-nil slice with the elements \<open>xs\<close>; \<open>rest\<close> is what the backing array still
  holds behind them from an earlier, longer decoding (empty for a fresh slice;
  positions further on are zero). \<^verbatim>\<open>make([]File, 0)\<close> is \<open>Slice [] []\<close>.

  The documentation of \<^verbatim>\<open>Unmarshal\<close>: "The JSON null value unmarshals into an
  interface, map, pointer, or slice by setting that Go value to nil"; "to unmarshal a
  JSON array into a slice, Unmarshal resets the slice length to zero and then appends
  each element to the slice. As a special case, to unmarshal an empty JSON array into a
  slice, Unmarshal replaces the slice with a new empty slice." Appending stays in the
  backing array while it has room, and an element is decoded into what its position
  holds: position \<open>i\<close> of \<open>backing cur\<close>, or the zero value behind it. Only a body
  that names the history twice can meet a position that is not zero.
\<close>

datatype 'a slice = NilSlice | Slice "'a list" "'a list"

fun backing :: "'a slice \<Rightarrow> 'a list" where
  "backing NilSlice = []"
| "backing (Slice xs rest) = xs @ rest"

fun store_elements :: "(json \<Rightarrow> 'a \<Rightarrow> 'a option) \<Rightarrow> 'a \<Rightarrow> json list \<Rightarrow> 'a list \<Rightarrow> ('a list \<times> 'a list) option" where
  "store_elements st zero [] bs = Some ([], bs)"
| "store_elements st zero (j # js) bs =
     (case st j (case bs of [] \<Rightarrow> zero | b # _ \<Rightarrow> b) of
        None \<Rightarrow> None
      | Some v \<Rightarrow>
          (case store_elements st zero js (tl bs) of
             None \<Rightarrow> None
           | Some (vs, rest) \<Rightarrow> Some (v # vs, rest)))"

definition store_slice :: "(json \<Rightarrow> 'a \<Rightarrow> 'a option) \<Rightarrow> 'a \<Rightarrow> json \<Rightarrow> 'a slice \<Rightarrow> 'a slice option" where
  "store_slice st zero j cur =
     (case j of
        JNull \<Rightarrow> Some NilSlice
      | JArray js \<Rightarrow>
          (if js = [] then Some (Slice [] [])
           else (case store_elements st zero js (backing cur) of
                   None \<Rightarrow> None
                 | Some (vs, rest) \<Rightarrow> Some (Slice vs rest)))
      | _ \<Rightarrow> None)"

section \<open>The response types of the client\<close>

text \<open>
  The structs of \<^verbatim>\<open>faxto.go\<close> with their JSON names. Several structs have a field
  \<^verbatim>\<open>Status\<close>, \<^verbatim>\<open>Balance\<close>, \<^verbatim>\<open>Id\<close> or \<^verbatim>\<open>DocumentId\<close>; a record field
  here carries its struct's initials in front of the Go name. \<^verbatim>\<open>uint64\<close> is
  \<open>64 word\<close>, \<^verbatim>\<open>uint8\<close> is \<open>8 word\<close>, and \<^verbatim>\<open>uint\<close> is taken at 64 bits.
\<close>

record 'f balanceResponse =
  br_Status :: string
  br_Balance :: 'f
  br_SubscriptionCreditAllowance :: 'f

record 'f faxCostResponse =
  fc_Status :: string
  fc_Cost :: 'f

record 'f faxStatusResponse =
  fs_Status :: string
  fs_Message :: string
  fs_Balance :: 'f

record 't Created =
  cr_Date :: 't
  cr_DateTimeZone :: "8 word"
  cr_Timezone :: string

record 't FaxHistoryEntry =
  he_Id :: "64 word"
  he_Created :: "'t Created"
  he_DocumentId :: "64 word"
  he_Document :: string
  he_Recipient :: string
  he_Status :: string

record 't faxHistoryResponse =
  fh_Status :: string
  fh_History :: "'t FaxHistoryEntry slice"

record fileUploadResponse =
  fu_Status :: string
  fu_DocumentId :: "64 word"
  fu_TotalPages :: "64 word"

record 't File =
  f_Id :: "64 word"
  f_Filename :: string
  f_Pages :: "64 word"
  f_Size :: "64 word"
  f_Uploaded :: "'t"

subsection \<open>Zero values\<close>

definition zero_balanceResponse :: "('f, 't) codec \<Rightarrow> 'f balanceResponse" where
  "zero_balanceResponse K =
     \<lparr>br_Status = [], br_Balance = zero_float64 K, br_SubscriptionCreditAllowance = zero_float64 K\<rparr>"

definition zero_faxCostResponse :: "('f, 't) codec \<Rightarrow> 'f faxCostResponse" where
  "zero_faxCostResponse K = \<lparr>fc_Status = [], fc_Cost = zero_float64 K\<rparr>"

definition zero_faxStatusResponse :: "('f, 't) codec \<Rightarrow> 'f faxStatusResponse" where
  "zero_faxStatusResponse K = \<lparr>fs_Status = [], fs_Message = [], fs_Balance = zero_float64 K\<rparr>"

definition zero_Created :: "('f, 't) codec \<Rightarrow> 't Created" where
  "zero_Created K = \<lparr>cr_Date = zero_Time K, cr_DateTimeZone = 0, cr_Timezone = []\<rparr>"

definition zero_FaxHistoryEntry :: "('f, 't) codec \<Rightarrow> 't FaxHistoryEntry" where
  "zero_FaxHistoryEntry K =
     \<lparr>he_Id = 0, he_Created = zero_Created K, he_DocumentId = 0, he_Document = [],
      he_Recipient = [], he_Status = []\<rparr>"

definition zero_faxHistoryResponse :: "'t faxHistoryResponse" where
  "zero_faxHistoryResponse = \<lparr>fh_Status = [], fh_History = NilSlice\<rparr>"

definition zero_fileUploadResponse :: fileUploadResponse where
  "zero_fileUploadResponse = \<lparr>fu_Status = [], fu_DocumentId = 0, fu_TotalPages = 0\<rparr>"

definition zero_File :: "('f, 't) codec \<Rightarrow> 't File" where
  "zero_File K = \<lparr>f_Id = 0, f_Filename = [], f_Pages = 0, f_Size = 0, f_Uploaded = zero_Time K\<rparr>"

subsection \<open>Storing one member into each struct\<close>

text \<open>
  One function per struct: the member's name is matched against the struct's JSON
  names (the \<^verbatim>\<open>json:"..."\<close> tags, in the order of the fields) and its value is stored
  into the field found. The tag of \<^verbatim>\<open>SubscriptionCreditAllowance\<close> is spelled
  as in the source.
\<close>

definition store_balanceResponse ::
  "('f, 't) codec \<Rightarrow> 'f balanceResponse \<Rightarrow> string \<times> json \<Rightarrow> 'f balanceResponse option" where
  "store_balanceResponse K b m =
     (case match_name [''status'', ''balance'', ''sunbscription_credit_allowance''] (fst m) of
        None \<Rightarrow> Some b
      | Some n \<Rightarrow>
          if n = ''status'' then
            map_option (\<lambda>v. b\<lparr>br_Status := v\<rparr>) (store_string (snd m) (br_Status b))
          else if n = ''balance'' then
            map_option (\<lambda>v. b\<lparr>br_Balance := v\<rparr>) (store_float64 K (snd m) (br_Balance b))
          else
            map_option (\<lambda>v. b\<lparr>br_SubscriptionCreditAllowance := v\<rparr>)
              (store_float64 K (snd m) (br_SubscriptionCreditAllowance b)))"

definition store_faxCostResponse ::
  "('f, 't) codec \<Rightarrow> 'f faxCostResponse \<Rightarrow> string \<times> json \<Rightarrow> 'f faxCostResponse option" where
  "store_faxCostResponse K c m =
     (case match_name [''status'', ''cost''] (fst m) of
        None \<Rightarrow> Some c
      | Some n \<Rightarrow>
          if n = ''status'' then
            map_option (\<lambda>v. c\<lparr>fc_Status := v\<rparr>) (store_string (snd m) (fc_Status c))
          else
            map_option (\<lambda>v. c\<lparr>fc_Cost := v\<rparr>) (store_float64 K (snd m) (fc_Cost c)))"

definition store_faxStatusResponse ::
  "('f, 't) codec \<Rightarrow> 'f faxStatusResponse \<Rightarrow> string \<times> json \<Rightarrow> 'f faxStatusResponse option" where
  "store_faxStatusResponse K r m =
     (case match_name [''status'', ''message'', ''user_cash_balance''] (fst m) of
        None \<Rightarrow> Some r
      | Some n \<Rightarrow>
          if n = ''status'' then
            map_option (\<lambda>v. r\<lparr>fs_Status := v\<rparr>) (store_string (snd m) (fs_Status r))
          else if n = ''message'' then
            map_option (\<lambda>v. r\<lparr>fs_Message := v\<rparr>) (store_string (snd m) (fs_Message r))
          else
            map_option (\<lambda>v. r\<lparr>fs_Balance := v\<rparr>) (store_float64 K (snd m) (fs_Balance r)))"

definition store_Created ::
  "('f, 't) codec \<Rightarrow> 't Created \<Rightarrow> string \<times> json \<Rightarrow> 't Created option" where
  "store_Created K c m =
     (case match_name [''date'', ''datetime_zone'', ''timezone''] (fst m) of
        None \<Rightarrow> Some c
      | Some n \<Rightarrow>
          if n = ''date'' then
            map_option (\<lambda>v. c\<lparr>cr_Date := v\<rparr>) (store_Time K (snd m) (cr_Date c))
          else if n = ''datetime_zone'' then
            map_option (\<lambda>v. c\<lparr>cr_DateTimeZone := v\<rparr>) (store_uint (snd m) (cr_DateTimeZone c))
          else
            map_option (\<lambda>v. c\<lparr>cr_Timezone := v\<rparr>) (store_string (snd m) (cr_Timezone c)))"

definition store_FaxHistoryEntry ::
  "('f, 't) codec \<Rightarrow> 't FaxHistoryEntry \<Rightarrow> string \<times> json \<Rightarrow> 't FaxHistoryEntry option" where
  "store_FaxHistoryEntry K e m =
     (case match_name
             [''id'', ''created'', ''document_id'', ''document'', ''recipient'', ''status'']
             (fst m) of
        None \<Rightarrow> Some e
      | Some n \<Rightarrow>
          if n = ''id'' then
            map_option (\<lambda>v. e\<lparr>he_Id := v\<rparr>) (store_uint (snd m) (he_Id e))
          else if n = ''created'' then
            map_option (\<lambda>v. e\<lparr>he_Created := v\<rparr>)
              (store_struct (store_Created K) (snd m) (he_Created e))
          else if n = ''document_id'' then
            map_option (\<lambda>v. e\<lparr>he_DocumentId := v\<rparr>) (store_uint (snd m) (he_DocumentId e))
          else if n = ''document'' then
            map_option (\<lambda>v. e\<lparr>he_Document := v\<rparr>) (store_string (snd m) (he_Document e))
          else if n = ''recipient'' then
            map_option (\<lambda>v. e\<lparr>he_Recipient := v\<rparr>) (store_string (snd m) (he_Recipient e))
          else
            map_option (\<lambda>v. e\<lparr>he_Status := v\<rparr>) (store_string (snd m) (he_Status e)))"

definition store_faxHistoryResponse ::
  "('f, 't) codec \<Rightarrow> 't faxHistoryResponse \<Rightarrow> string \<times> json \<Rightarrow> 't faxHistoryResponse option" where
  "store_faxHistoryResponse K h m =
     (case match_name [''status'', ''history''] (fst m) of
        None \<Rightarrow> Some h
      | Some n \<Rightarrow>
          if n = ''status'' then
            map_option (\<lambda>v. h\<lparr>fh_Status := v\<rparr>) (store_string (snd m) (fh_Status h))
          else
            map_option (\<lambda>v. h\<lparr>fh_History := v\<rparr>)
              (store_slice (store_struct (store_FaxHistoryEntry K)) (zero_FaxHistoryEntry K)
                 (snd m) (fh_History h)))"

definition store_fileUploadResponse ::
  "fileUploadResponse \<Rightarrow> string \<times> json \<Rightarrow> fileUploadResponse option" where
  "store_fileUploadResponse u m =
     (case match_name [''status'', ''document_id'', ''total_pages''] (fst m) of
        None \<Rightarrow> Some u
      | Some n \<Rightarrow>
          if n = ''status'' then
            map_option (\<lambda>v. u\<lparr>fu_Status := v\<rparr>) (store_string (snd m) (fu_Status u))
          else if n = ''document_id'' then
            map_option (\<lambda>v. u\<lparr>fu_DocumentId := v\<rparr>) (store_uint (snd m) (fu_DocumentId u))
          else
            map_option (\<lambda>v. u\<lparr>fu_TotalPages := v\<rparr>) (store_uint (snd m) (fu_TotalPages u)))"

definition store_File ::
  "('f, 't) codec \<Rightarrow> 't File \<Rightarrow> string \<times> json \<Rightarrow> 't File option" where
  "store_File K f m =
     (case match_name [''id'', ''filename'', ''pages'', ''size'', ''uploaded''] (fst m) of
        None \<Rightarrow> Some f
      | Some n \<Rightarrow>
          if n = ''id'' then
            map_option (\<lambda>v. f\<lparr>f_Id := v\<rparr>) (store_uint (snd m) (f_Id f))
          else if n = ''filename'' then
            map_option (\<lambda>v. f\<lparr>f_Filename := v\<rparr>) (store_string (snd m) (f_Filename f))
          else if n = ''pages'' then
            map_option (\<lambda>v. f\<lparr>f_Pages := v\<rparr>) (store_uint (snd m) (f_Pages f))
          else if n = ''size'' then
            map_option (\<lambda>v. f\<lparr>f_Size := v\<rparr>) (store_uint (snd m) (f_Size f))
          else
            map_option (\<lambda>v. f\<lparr>f_Uploaded := v\<rparr>) (store_Time K (snd m) (f_Uploaded f)))"

section \<open>The client\<close>

subsection \<open>Requests, responses and the world outside\<close>

text \<open>
  \<^verbatim>\<open>http.Client\<close> is kept by its one configured field, the timeout (a
  \<^verbatim>\<open>time.Duration\<close>, in nanoseconds).
\<close>

record http_Client =
  Timeout :: nat

record Client =
  baseUrl :: string
  httpClient :: http_Client

text \<open>
  A request as the client hands it to the HTTP library: method, URL, the headers it
  sets, and the body (none, the bytes of a buffer, or the form values that
  \<^verbatim>\<open>PostForm\<close> encodes).
\<close>

datatype request_body = NoBody | RawBody string | FormBody "(string \<times> string list) list"

record request =
  Method :: string
  Url :: string
  Header :: "(string \<times> string) list"
  ReqBody :: request_body

record response =
  StatusCode :: int
  Body :: body

text \<open>
  The errors an operation returns. The source returns the library's error as it is, and
  builds its own with \<^verbatim>\<open>fmt.Errorf\<close>:
  \<^item> \<open>RequestError\<close>: the error of \<^verbatim>\<open>http.NewRequest\<close> (the URL does not parse);
  \<^item> \<open>TransportError\<close>: the error of \<^verbatim>\<open>httpClient.Do\<close> or \<^verbatim>\<open>PostForm\<close>;
  \<^item> \<open>FileError\<close>: the error of \<^verbatim>\<open>ioutil.ReadFile\<close>;
  \<^item> \<open>HttpStatusError code\<close>: \<^verbatim>\<open>fmt.Errorf("expected status < 400, got %d", code)\<close>;
  \<^item> \<open>RemoteStatusError s\<close>: \<^verbatim>\<open>fmt.Errorf("expected status 'success', got '%s'", s)\<close>;
  \<^item> \<open>DecodeError\<close>: the error of \<^verbatim>\<open>Decode\<close>.
\<close>

datatype error =
    RequestError string
  | TransportError string
  | FileError string
  | HttpStatusError int
  | RemoteStatusError string
  | DecodeError

text \<open>
  The world outside the client: whether a URL parses (\<open>Some\<close> the error of
  \<^verbatim>\<open>url.Parse\<close>), what the transport answers to a request (the error message or
  the response), what a file holds (the error message or its bytes), and the codec
  above.
\<close>

record ('f, 't) env =
  Codec :: "('f, 't) codec"
  url_Parse :: "string \<Rightarrow> string option"
  RoundTrip :: "http_Client \<Rightarrow> request \<Rightarrow> string + response"
  ReadFile :: "string \<Rightarrow> string + string"

text \<open>
  What an operation does to the world, in order: reading a file, one HTTP exchange
  (the request sent and what came back), decoding the response body, closing it.
\<close>

datatype event =
    FileRead string
  | Exchange request "string + response"
  | DecodeBody
  | CloseBody

subsection \<open>Library calls\<close>

definition NewRequest :: "('f, 't) env \<Rightarrow> string \<Rightarrow> string \<Rightarrow> request_body \<Rightarrow> error + request" where
  "NewRequest E method url b =
     (case url_Parse E url of
        Some msg \<Rightarrow> Inl (RequestError msg)
      | None \<Rightarrow> Inr \<lparr>Method = method, Url = url, Header = [], ReqBody = b\<rparr>)"

definition Header_Set :: "request \<Rightarrow> string \<Rightarrow> string \<Rightarrow> request" where
  "Header_Set req k v = req\<lparr>Header := (k, v) # filter (\<lambda>p. fst p \<noteq> k) (Header req)\<rparr>"

definition Do :: "('f, 't) env \<Rightarrow> Client \<Rightarrow> request \<Rightarrow> (error + response) \<times> event list" where
  "Do E c req =
     (case RoundTrip E (httpClient c) req of
        Inl msg \<Rightarrow> (Inl (TransportError msg), [Exchange req (Inl msg)])
      | Inr resp \<Rightarrow> (Inr resp, [Exchange req (Inr resp)]))"

text \<open>
  \<^verbatim>\<open>PostForm(url, data)\<close> is \<^verbatim>\<open>NewRequest("POST", url, body)\<close>, the form's content
  type, and \<^verbatim>\<open>Do\<close>.
\<close>

definition PostForm ::
  "('f, 't) env \<Rightarrow> Client \<Rightarrow> string \<Rightarrow> (string \<times> string list) list \<Rightarrow> (error + response) \<times> event list" where
  "PostForm E c url data =
     (case NewRequest E ''POST'' url (FormBody data) of
        Inl err \<Rightarrow> (Inl err, [])
      | Inr req \<Rightarrow> Do E c (Header_Set req ''Content-Type'' ''application/x-www-form-urlencoded''))"

text \<open>
  \<^verbatim>\<open>json.NewDecoder(body).Decode(&target)\<close>: \<open>st\<close> stores a JSON value into the
  target's type.
\<close>

definition Decode :: "(json \<Rightarrow> 'a \<Rightarrow> 'a option) \<Rightarrow> body \<Rightarrow> 'a \<Rightarrow> error + 'a" where
  "Decode st b target =
     (case b of
        Unreadable \<Rightarrow> Inl DecodeError
      | Value j \<Rightarrow> (case st j target of None \<Rightarrow> Inl DecodeError | Some v \<Rightarrow> Inr v))"

subsection \<open>Construction\<close>

definition rawBaseUrl :: string where
  "rawBaseUrl = ''https://fax.to/api/v2$action$?api_key=$key$''"

definition Second :: nat where
  "Second = 1000000000"

definition NewClient :: "string \<Rightarrow> Client" where
  "NewClient apiKey =
     \<lparr>baseUrl = ReplaceAll rawBaseUrl ''$key$'' apiKey,
      httpClient = \<lparr>Timeout = 10 * Second\<rparr>\<rparr>"

subsection \<open>Operations\<close>

text \<open>
  An operation returns its result (the error, or the value), the client as the call
  leaves it (the methods have the pointer receiver \<^verbatim>\<open>c *Client\<close>), and the events
  of the call.
\<close>

definition SendFax ::
  "('f, 't) env \<Rightarrow> Client \<Rightarrow> string \<Rightarrow> 64 word \<Rightarrow> (error + unit) \<times> Client \<times> event list" where
  "SendFax E c number fileId =
     (let data = [(''fax_number'', [number]), (''document_id'', [Sprintf_d_uint64 fileId])] in
      case PostForm E c (ReplaceAll (baseUrl c) ''$action$'' ''/fax'') data of
        (Inl err, evs) \<Rightarrow> (Inl err, c, evs)
      | (Inr resp, evs) \<Rightarrow>
          if 400 \<le> StatusCode resp then (Inl (HttpStatusError (StatusCode resp)), c, evs)
          else (Inr (), c, evs))"

definition GetBalance ::
  "('f, 't) env \<Rightarrow> Client \<Rightarrow> (error + 'f) \<times> Client \<times> event list" where
  "GetBalance E c =
     (case NewRequest E ''GET'' (ReplaceAll (baseUrl c) ''$action$'' ''/balance'') NoBody of
        Inl err \<Rightarrow> (Inl err, c, [])
      | Inr req \<Rightarrow>
          (case Do E c (Header_Set req ''Content-Type'' ''application/json'') of
             (Inl err, evs) \<Rightarrow> (Inl err, c, evs)
           | (Inr resp, evs) \<Rightarrow>
               if 400 \<le> StatusCode resp
               then (Inl (HttpStatusError (StatusCode resp)), c, evs @ [CloseBody])
               else
                 (case Decode (store_struct (store_balanceResponse (Codec E))) (Body resp)
                         (zero_balanceResponse (Codec E)) of
                    Inl err \<Rightarrow> (Inl err, c, evs @ [DecodeBody, CloseBody])
                  | Inr b \<Rightarrow>
                      if br_Status b \<noteq> ''success''
                      then (Inl (RemoteStatusError (br_Status b)), c, evs @ [DecodeBody, CloseBody])
                      else (Inr (br_Balance b), c, evs @ [DecodeBody, CloseBody]))))"

definition GetFaxCost ::
  "('f, 't) env \<Rightarrow> Client \<Rightarrow> string \<Rightarrow> 64 word \<Rightarrow> (error + 'f) \<times> Client \<times> event list" where
  "GetFaxCost E c number docId =
     (case NewRequest E ''GET''
             (ReplaceAll (baseUrl c) ''$action$'' (''/fax/'' @ Sprintf_d_uint64 docId @ ''/costs'')
                @ ''&fax_number='' @ number)
             NoBody of
        Inl err \<Rightarrow> (Inl err, c, [])
      | Inr req \<Rightarrow>
          (case Do E c (Header_Set req ''Accept'' ''application/json'') of
             (Inl err, evs) \<Rightarrow> (Inl err, c, evs)
           | (Inr resp, evs) \<Rightarrow>
               if 400 \<le> StatusCode resp
               then (Inl (HttpStatusError (StatusCode resp)), c, evs @ [CloseBody])
               else
                 (case Decode (store_struct (store_faxCostResponse (Codec E))) (Body resp)
                         (zero_faxCostResponse (Codec E)) of
                    Inl err \<Rightarrow> (Inl err, c, evs @ [DecodeBody, CloseBody])
                  | Inr cost \<Rightarrow> (Inr (fc_Cost cost), c, evs @ [DecodeBody, CloseBody]))))"

definition GetFaxStatus ::
  "('f, 't) env \<Rightarrow> Client \<Rightarrow> 64 word \<Rightarrow> (error + string) \<times> Client \<times> event list" where
  "GetFaxStatus E c faxJobId =
     (case NewRequest E ''GET''
             (ReplaceAll (baseUrl c) ''$action$'' (''/fax/'' @ Sprintf_d_int faxJobId @ ''/status''))
             NoBody of
        Inl err \<Rightarrow> (Inl err, c, [])
      | Inr req \<Rightarrow>
          (case Do E c (Header_Set req ''Accept'' ''application/json'') of
             (Inl err, evs) \<Rightarrow> (Inl err, c, evs)
           | (Inr resp, evs) \<Rightarrow>
               if 400 \<le> StatusCode resp
               then (Inl (HttpStatusError (StatusCode resp)), c, evs @ [CloseBody])
               else
                 (case Decode (store_struct (store_faxStatusResponse (Codec E))) (Body resp)
                         (zero_faxStatusResponse (Codec E)) of
                    Inl err \<Rightarrow> (Inl err, c, evs @ [DecodeBody, CloseBody])
                  | Inr fs \<Rightarrow> (Inr (fs_Status fs), c, evs @ [DecodeBody, CloseBody]))))"

definition GetFaxHistory ::
  "('f, 't) env \<Rightarrow> Client \<Rightarrow> (error + 't FaxHistoryEntry slice) \<times> Client \<times> event list" where
  "GetFaxHistory E c =
     (case NewRequest E ''GET'' (ReplaceAll (baseUrl c) ''$action$'' ''/fax-history'') NoBody of
        Inl err \<Rightarrow> (Inl err, c, [])
      | Inr req \<Rightarrow>
          (case Do E c (Header_Set req ''Accept'' ''application/json'') of
             (Inl err, evs) \<Rightarrow> (Inl err, c, evs)
           | (Inr resp, evs) \<Rightarrow>
               if 400 \<le> StatusCode resp
               then (Inl (HttpStatusError (StatusCode resp)), c, evs @ [CloseBody])
               else
                 (case Decode (store_struct (store_faxHistoryResponse (Codec E))) (Body resp)
                         zero_faxHistoryResponse of
                    Inl err \<Rightarrow> (Inl err, c, evs @ [DecodeBody, CloseBody])
                  | Inr fh \<Rightarrow>
                      if fh_Status fh \<noteq> ''success''
                      then (Inl (RemoteStatusError (fh_Status fh)), c, evs @ [DecodeBody, CloseBody])
                      else (Inr (fh_History fh), c, evs @ [DecodeBody, CloseBody]))))"

definition UploadFile ::
  "('f, 't) env \<Rightarrow> Client \<Rightarrow> string \<Rightarrow> (error + 64 word) \<times> Client \<times> event list" where
  "UploadFile E c file =
     (case ReadFile E file of
        Inl msg \<Rightarrow> (Inl (FileError msg), c, [FileRead file])
      | Inr content \<Rightarrow>
          (case NewRequest E ''POST'' (ReplaceAll (baseUrl c) ''$action$'' ''/files'')
                  (RawBody content) of
             Inl err \<Rightarrow> (Inl err, c, [FileRead file])
           | Inr req \<Rightarrow>
               (case Do E c req of
                  (Inl err, evs) \<Rightarrow> (Inl err, c, FileRead file # evs)
                | (Inr resp, evs) \<Rightarrow>
                    if 400 \<le> StatusCode resp
                    then (Inl (HttpStatusError (StatusCode resp)), c,
                          FileRead file # evs @ [CloseBody])
                    else
                      (case Decode (store_struct store_fileUploadResponse) (Body resp)
                              zero_fileUploadResponse of
                         Inl err \<Rightarrow> (Inl err, c, FileRead file # evs @ [DecodeBody, CloseBody])
                       | Inr fu \<Rightarrow>
                           if fu_Status fu \<noteq> ''success''
                           then (Inl (RemoteStatusError (fu_Status fu)), c,
                                 FileRead file # evs @ [DecodeBody, CloseBody])
                           else (Inr (fu_DocumentId fu), c,
                                 FileRead file # evs @ [DecodeBody, CloseBody])))))"

definition GetFiles ::
  "('f, 't) env \<Rightarrow> Client \<Rightarrow> (error + 't File slice) \<times> Client \<times> event list" where
  "GetFiles E c =
     (case NewRequest E ''GET'' (ReplaceAll (baseUrl c) ''$action$'' ''/files'') NoBody of
        Inl err \<Rightarrow> (Inl err, c, [])
      | Inr req \<Rightarrow>
          (case Do E c (Header_Set req ''Accept'' ''application/json'') of
             (Inl err, evs) \<Rightarrow> (Inl err, c, evs)
           | (Inr resp, evs) \<Rightarrow>
               if 400 \<le> StatusCode resp
               then (Inl (HttpStatusError (StatusCode resp)), c, evs @ [CloseBody])
               else
                 (let files = Slice [] [] in
                  case Decode (store_slice (store_struct (store_File (Codec E))) (zero_File (Codec E)))
                         (Body resp) files of
                    Inl err \<Rightarrow> (Inl err, c, evs @ [DecodeBody, CloseBody])
                  | Inr files' \<Rightarrow> (Inr files', c, evs @ [DecodeBody, CloseBody]))))"

definition DeleteFile ::
  "('f, 't) env \<Rightarrow> Client \<Rightarrow> 64 word \<Rightarrow> (error + unit) \<times> Client \<times> event list" where
  "DeleteFile E c fileId =
     (case NewRequest E ''DELETE''
             (ReplaceAll (baseUrl c) ''$action$'' (''/files/'' @ Sprintf_d_uint64 fileId)) NoBody of
        Inl err \<Rightarrow> (Inl err, c, [])
      | Inr req \<Rightarrow>
          (case Do E c (Header_Set req ''Accept'' ''application/json'') of
             (Inl err, evs) \<Rightarrow> (Inl err, c, evs)
           | (Inr resp, evs) \<Rightarrow>
               if 400 \<le> StatusCode resp
               then (Inl (HttpStatusError (StatusCode resp)), c, evs @ [CloseBody])
               else (Inr (), c, evs @ [CloseBody])))"

subsection \<open>Any operation, and sequences of operations\<close>

text \<open>
  The eight operations under one type, for the properties that hold of every
  operation: a call names the operation and its arguments, a reply is what it returns.
\<close>

datatype call =
    CallSendFax string "64 word"
  | CallGetBalance
  | CallGetFaxCost string "64 word"
  | CallGetFaxStatus "64 word"
  | CallGetFaxHistory
  | CallUploadFile string
  | CallGetFiles
  | CallDeleteFile "64 word"

datatype ('f, 't) reply =
    Nothing
  | Number 'f
  | Text string
  | History "'t FaxHistoryEntry slice"
  | DocumentId "64 word"
  | Files "'t File slice"

definition returning ::
  "('a \<Rightarrow> ('f, 't) reply) \<Rightarrow> (error + 'a) \<times> Client \<times> event list \<Rightarrow>
   (error + ('f, 't) reply) \<times> Client \<times> event list" where
  "returning f out = (map_sum id f (fst out), snd out)"

fun invoke ::
  "('f, 't) env \<Rightarrow> Client \<Rightarrow> call \<Rightarrow> (error + ('f, 't) reply) \<times> Client \<times> event list" where
  "invoke E c (CallSendFax number fileId) = returning (\<lambda>_. Nothing) (SendFax E c number fileId)"
| "invoke E c CallGetBalance = returning Number (GetBalance E c)"
| "invoke E c (CallGetFaxCost number docId) = returning Number (GetFaxCost E c number docId)"
| "invoke E c (CallGetFaxStatus faxJobId) = returning Text (GetFaxStatus E c faxJobId)"
| "invoke E c CallGetFaxHistory = returning History (GetFaxHistory E c)"
| "invoke E c (CallUploadFile file) = returning DocumentId (UploadFile E c file)"
| "invoke E c CallGetFiles = returning Files (GetFiles E c)"
| "invoke E c (CallDeleteFile fileId) = returning (\<lambda>_. Nothing) (DeleteFile E c fileId)"

text \<open>
  A sequence of calls on one client, each in the world it meets: the client each call
  leaves is the client of the next.
\<close>

fun invoke_all :: "Client \<Rightarrow> (('f, 't) env \<times> call) list \<Rightarrow> Client" where
  "invoke_all c [] = c"
| "invoke_all c (x # xs) = invoke_all (fst (snd (invoke (fst x) c (snd x)))) xs"

subsection \<open>Reading the events of a call\<close>

text \<open>The requests a call sent, in order.\<close>

fun requests :: "event list \<Rightarrow> request list" where
  "requests [] = []"
| "requests (Exchange req r # evs) = req # requests evs"
| "requests (FileRead f # evs) = requests evs"
| "requests (DecodeBody # evs) = requests evs"
| "requests (CloseBody # evs) = requests evs"

text \<open>The world \<open>E\<close> with a transport that answers every request with \<open>resp\<close>.\<close>

definition answering :: "('f, 't) env \<Rightarrow> response \<Rightarrow> ('f, 't) env" where
  "answering E resp = E\<lparr>RoundTrip := \<lambda>h q. Inr resp\<rparr>"

text \<open>
  The action segment each operation puts in the place of \<^verbatim>\<open>$action$\<close>, and what
  it appends to the URL after the substitution (only \<^verbatim>\<open>GetFaxCost\<close> appends
  something).
\<close>

fun action_segment :: "call \<Rightarrow> string" where
  "action_segment (CallSendFax number fileId) = ''/fax''"
| "action_segment CallGetBalance = ''/balance''"
| "action_segment (CallGetFaxCost number docId) = ''/fax/'' @ Sprintf_d_uint64 docId @ ''/costs''"
| "action_segment (CallGetFaxStatus faxJobId) = ''/fax/'' @ Sprintf_d_int faxJobId @ ''/status''"
| "action_segment CallGetFaxHistory = ''/fax-history''"
| "action_segment (CallUploadFile file) = ''/files''"
| "action_segment CallGetFiles = ''/files''"
| "action_segment (CallDeleteFile fileId) = ''/files/'' @ Sprintf_d_uint64 fileId"

fun appended :: "call \<Rightarrow> string" where
  "appended (CallGetFaxCost number docId) = ''&fax_number='' @ number"
| "appended call = []"

subsection \<open>An example world\<close>

text \<open>
  A small codec and world for trying the operations: \<^verbatim>\<open>float64\<close> values are
  rationals and only the literals \<^verbatim>\<open>12.5\<close> and \<^verbatim>\<open>0\<close> parse; times are kept as
  their text; every URL parses; the transport answers every request with the given
  response; every file holds the given bytes.
\<close>

definition example_codec :: "(rat, string) codec" where
  "example_codec =
     \<lparr>ParseFloat = (\<lambda>lit. if lit = ''12.5'' then Some (25 / 2)
                          else if lit = ''0'' then Some 0 else None),
      zero_float64 = 0,
      ParseTime = Some,
      zero_Time = []\<rparr>"

definition example_world :: "response \<Rightarrow> string \<Rightarrow> (rat, string) env" where
  "example_world resp content =
     \<lparr>Codec = example_codec,
      url_Parse = (\<lambda>url. None),
      RoundTrip = (\<lambda>h req. Inr resp),
      ReadFile = (\<lambda>file. Inr content)\<rparr>"

section \<open>Properties\<close>

subsection \<open>Helper facts\<close>

lemmas lib_defs = NewRequest_def Do_def PostForm_def Header_Set_def

lemmas op_defs = SendFax_def GetBalance_def GetFaxCost_def GetFaxStatus_def GetFaxHistory_def
  UploadFile_def GetFiles_def DeleteFile_def

lemmas decode_defs = Decode_def store_struct_def store_slice_def match_name_def upper_def
  store_string_def store_float64_def store_Time_def store_uint_def ParseUint_def isDigit_def

lemmas zero_defs = zero_balanceResponse_def zero_faxCostResponse_def zero_faxStatusResponse_def
  zero_Created_def zero_FaxHistoryEntry_def zero_faxHistoryResponse_def
  zero_fileUploadResponse_def zero_File_def

lemmas store_defs = store_balanceResponse_def store_faxCostResponse_def
  store_faxStatusResponse_def store_Created_def store_FaxHistoryEntry_def
  store_faxHistoryResponse_def store_fileUploadResponse_def store_File_def

lemmas example_defs = example_world_def example_codec_def NewClient_def rawBaseUrl_def

lemma fst_returning: "fst (returning f out) = map_sum id f (fst out)"
  by (simp add: returning_def)

lemma snd_returning: "snd (returning f out) = snd out"
  by (simp add: returning_def)

subsection \<open>HTTP status 400 and above\<close>

lemma status_error_of_call:
  assumes "Exchange req (Inr resp) \<in> set (snd (snd (invoke E c call)))"
      and "400 \<le> StatusCode resp"
  shows "fst (invoke E c call) = Inl (HttpStatusError (StatusCode resp))"
  using assms
  by (cases call)
     (auto simp: fst_returning snd_returning op_defs lib_defs
           split: option.splits sum.splits if_splits)

lemma no_decode_of_call:
  assumes "Exchange req (Inr resp) \<in> set (snd (snd (invoke E c call)))"
      and "400 \<le> StatusCode resp"
  shows "DecodeBody \<notin> set (snd (snd (invoke E c call)))"
  using assms
  by (cases call)
     (auto simp: fst_returning snd_returning op_defs lib_defs
           split: option.splits sum.splits if_splits)

lemma any_body_of_call:
  assumes "Exchange req (Inr resp) \<in> set (snd (snd (invoke E c call)))"
      and "400 \<le> StatusCode resp"
  shows "fst (invoke (answering E (resp\<lparr>Body := b\<rparr>)) c call) =
         Inl (HttpStatusError (StatusCode resp))"
  using assms
  by (cases call)
     (auto simp: fst_returning snd_returning op_defs lib_defs answering_def
           split: option.splits sum.splits if_splits)

lemma exchange_of_call:
  assumes "url_Parse E (ReplaceAll (baseUrl c) ''$action$'' (action_segment call) @ appended call)
             = None"
      and "\<forall>file. call = CallUploadFile file \<longrightarrow> (\<exists>content. ReadFile E file = Inr content)"
      and "\<forall>req. Url req = ReplaceAll (baseUrl c) ''$action$'' (action_segment call) @ appended call
                 \<longrightarrow> RoundTrip E (httpClient c) req = Inr resp"
  shows "\<exists>req. Exchange req (Inr resp) \<in> set (snd (snd (invoke E c call)))"
  using assms
  by (cases call)
     (auto simp: snd_returning op_defs lib_defs Let_def
           split: option.splits sum.splits if_splits)

text \<open>
  C1. Whatever the operation: in a world where the URL of its request parses, the file
  to upload (for \<^verbatim>\<open>UploadFile\<close>) can be read, and the transport answers the request
  to that URL with a response whose status code is 400 or more, the operation fails
  with \<open>HttpStatusError\<close> of that code, the call has no decoding among its events,
  and the same error comes out for every other body the response could carry.
\<close>

theorem http_status_error:
  assumes parses:
        "url_Parse E (ReplaceAll (baseUrl c) ''$action$'' (action_segment call) @ appended call)
           = None"
      and readable:
        "\<forall>file. call = CallUploadFile file \<longrightarrow> (\<exists>content. ReadFile E file = Inr content)"
      and answered:
        "\<forall>req. Url req = ReplaceAll (baseUrl c) ''$action$'' (action_segment call) @ appended call
               \<longrightarrow> RoundTrip E (httpClient c) req = Inr resp"
      and code: "400 \<le> StatusCode resp"
  shows "fst (invoke E c call) = Inl (HttpStatusError (StatusCode resp)) \<and>
         DecodeBody \<notin> set (snd (snd (invoke E c call))) \<and>
         (\<forall>b. fst (invoke (answering E (resp\<lparr>Body := b\<rparr>)) c call) =
                Inl (HttpStatusError (StatusCode resp)))"
proof -
  from exchange_of_call [OF parses readable answered]
  obtain req where sent: "Exchange req (Inr resp) \<in> set (snd (snd (invoke E c call)))"
    by blast
  show ?thesis
    using status_error_of_call [OF sent code] no_decode_of_call [OF sent code]
      any_body_of_call [OF sent code]
    by blast
qed

text \<open>
  All eight operations in a world that answers every request with status 500 and a body
  that says \<^verbatim>\<open>success\<close>: each fails with \<open>HttpStatusError 500\<close>, decodes nothing,
  and has sent its one request to the URL beside it.
\<close>

theorem http_status_error_witness:
  "let W = example_world
             \<lparr>StatusCode = 500, Body = Value (JObject [(''status'', JString ''success'')])\<rparr>
             ''%PDF'';
       c = NewClient ''KEY''
   in list_all2
        (\<lambda>call url.
           fst (invoke W c call) = Inl (HttpStatusError 500) \<and>
           DecodeBody \<notin> set (snd (snd (invoke W c call))) \<and>
           map Url (requests (snd (snd (invoke W c call)))) = [url])
        [CallSendFax ''+4912345'' 7, CallGetBalance, CallGetFaxCost ''123'' 7,
         CallGetFaxStatus 9, CallGetFaxHistory, CallUploadFile ''a.pdf'', CallGetFiles,
         CallDeleteFile 7]
        [''https://fax.to/api/v2/fax?api_key=KEY'',
         ''https://fax.to/api/v2/balance?api_key=KEY'',
         ''https://fax.to/api/v2/fax/7/costs?api_key=KEY&fax_number=123'',
         ''https://fax.to/api/v2/fax/9/status?api_key=KEY'',
         ''https://fax.to/api/v2/fax-history?api_key=KEY'',
         ''https://fax.to/api/v2/files?api_key=KEY'',
         ''https://fax.to/api/v2/files?api_key=KEY'',
         ''https://fax.to/api/v2/files/7?api_key=KEY'']"
proof -
  let ?r = "\<lparr>StatusCode = 500, Body = Value (JObject [(''status'', JString ''success'')])\<rparr>"
  let ?W = "example_world ?r ''%PDF''"
  let ?c = "NewClient ''KEY''"
  have fails: "fst (invoke ?W ?c call) = Inl (HttpStatusError 500) \<and>
               DecodeBody \<notin> set (snd (snd (invoke ?W ?c call)))" for call
    using http_status_error [of ?W ?c call ?r] by (simp add: example_world_def)
  have u1: "map Url (requests (snd (snd (invoke ?W ?c (CallSendFax ''+4912345'' 7))))) =
              [''https://fax.to/api/v2/fax?api_key=KEY'']"
    by (simp add: snd_returning SendFax_def lib_defs example_defs Sprintf_d_uint64_def
          decimal.simps)
  have u2: "map Url (requests (snd (snd (invoke ?W ?c CallGetBalance)))) =
              [''https://fax.to/api/v2/balance?api_key=KEY'']"
    by (simp add: snd_returning GetBalance_def lib_defs example_defs)
  have u3: "map Url (requests (snd (snd (invoke ?W ?c (CallGetFaxCost ''123'' 7))))) =
              [''https://fax.to/api/v2/fax/7/costs?api_key=KEY&fax_number=123'']"
    by (simp add: snd_returning GetFaxCost_def lib_defs example_defs Sprintf_d_uint64_def
          decimal.simps)
  have u4: "map Url (requests (snd (snd (invoke ?W ?c (CallGetFaxStatus 9))))) =
              [''https://fax.to/api/v2/fax/9/status?api_key=KEY'']"
    by (simp add: snd_returning GetFaxStatus_def lib_defs example_defs Sprintf_d_int_def
          decimal.simps)
  have u5: "map Url (requests (snd (snd (invoke ?W ?c CallGetFaxHistory)))) =
              [''https://fax.to/api/v2/fax-history?api_key=KEY'']"
    by (simp add: snd_returning GetFaxHistory_def lib_defs example_defs)
  have u6: "map Url (requests (snd (snd (invoke ?W ?c (CallUploadFile ''a.pdf''))))) =
              [''https://fax.to/api/v2/files?api_key=KEY'']"
    by (simp add: snd_returning UploadFile_def lib_defs example_defs)
  have u7: "map Url (requests (snd (snd (invoke ?W ?c CallGetFiles)))) =
              [''https://fax.to/api/v2/files?api_key=KEY'']"
    by (simp add: snd_returning GetFiles_def lib_defs example_defs)
  have u8: "map Url (requests (snd (snd (invoke ?W ?c (CallDeleteFile 7))))) =
              [''https://fax.to/api/v2/files/7?api_key=KEY'']"
    by (simp add: snd_returning DeleteFile_def lib_defs example_defs Sprintf_d_uint64_def
          decimal.simps)
  show ?thesis
    unfolding Let_def list_all2_Cons list_all2_Nil
    using fails u1 u2 u3 u4 u5 u6 u7 u8 by blast
qed

subsection \<open>The client record\<close>

lemma client_of_call: "fst (snd (invoke E c call)) = c"
  by (cases call)
     (auto simp: snd_returning op_defs lib_defs Let_def
           split: option.splits sum.splits if_splits prod.splits)

text \<open>
  C9. No operation changes the client: after a call, whatever its outcome, the client
  is the one the call started from, base URL and transport alike; so it is after any
  sequence of calls, each in a world of its own.
\<close>

theorem client_never_mutated:
  "fst (snd (invoke E c call)) = c \<and> invoke_all c xs = c"
proof
  show "fst (snd (invoke E c call)) = c"
    by (rule client_of_call)
  show "invoke_all c xs = c"
    by (induction xs arbitrary: c) (simp_all add: client_of_call)
qed

subsection \<open>The request URL\<close>

lemma ReplaceAll_absent: "\<not> Contains s old \<Longrightarrow> ReplaceAll s old new = s"
  by (induction s) auto

lemma Contains_middle: "Contains (xs @ sub @ ys) sub"
proof (induction xs)
  case Nil
  have "take (length sub) (sub @ ys) = sub"
    by simp
  then show ?case
    by (cases "sub @ ys") auto
next
  case (Cons x xs)
  then show ?case by simp
qed

lemma baseUrl_NewClient:
  "baseUrl (NewClient apiKey) = ''https://fax.to/api/v2$action$?api_key='' @ apiKey"
  by (simp add: NewClient_def rawBaseUrl_def)

lemma action_url:
  "\<not> Contains apiKey ''$action$'' \<Longrightarrow>
   ReplaceAll (baseUrl (NewClient apiKey)) ''$action$'' a =
   ''https://fax.to/api/v2'' @ a @ ''?api_key='' @ apiKey"
  by (simp add: baseUrl_NewClient ReplaceAll_absent)

lemma url_of_call:
  assumes "Exchange req r \<in> set (snd (snd (invoke E c call)))"
  shows "Url req = ReplaceAll (baseUrl c) ''$action$'' (action_segment call) @ appended call"
  using assms
  by (cases call)
     (auto simp: snd_returning op_defs lib_defs
           split: option.splits sum.splits if_splits)

text \<open>
  C3, as the code has it. The key is substituted at construction, for every key. For a
  key in which the placeholder \<^verbatim>\<open>$action$\<close> does not occur, the URL of the request
  an operation sends is \<^verbatim>\<open>https://fax.to/api/v2\<close>, the operation's action segment,
  \<^verbatim>\<open>?api_key=\<close> and the key, verbatim; \<^verbatim>\<open>GetFaxCost\<close>, whose action segment is
  \<^verbatim>\<open>/fax/{docId}/costs\<close>, appends \<^verbatim>\<open>&fax_number={number}\<close> behind the key.
\<close>

theorem request_url:
  assumes "\<not> Contains apiKey ''$action$''"
      and "Exchange req r \<in> set (snd (snd (invoke E (NewClient apiKey) call)))"
  shows "baseUrl (NewClient apiKey) = ''https://fax.to/api/v2$action$?api_key='' @ apiKey \<and>
         Url req = ''https://fax.to/api/v2'' @ action_segment call @ ''?api_key='' @ apiKey
                     @ appended call \<and>
         Contains (Url req) apiKey"
proof -
  have u: "Url req = ''https://fax.to/api/v2'' @ action_segment call @ ''?api_key='' @ apiKey
                       @ appended call"
    using url_of_call [OF assms(2)] action_url [OF assms(1)] by simp
  have "Contains ((''https://fax.to/api/v2'' @ action_segment call @ ''?api_key='') @ apiKey
                    @ appended call) apiKey"
    by (rule Contains_middle)
  with u show ?thesis
    by (simp add: baseUrl_NewClient)
qed

theorem request_url_witness:
  "\<not> Contains ''KEY'' ''$action$'' \<and>
   Exchange
     \<lparr>Method = ''GET'', Url = ''https://fax.to/api/v2/fax/7/costs?api_key=KEY&fax_number=123'',
      Header = [(''Accept'', ''application/json'')], ReqBody = NoBody\<rparr>
     (Inr \<lparr>StatusCode = 200, Body = Value JNull\<rparr>)
     \<in> set (snd (snd (invoke (example_world \<lparr>StatusCode = 200, Body = Value JNull\<rparr> [])
                  (NewClient ''KEY'') (CallGetFaxCost ''123'' 7)))) \<and>
   ''https://fax.to/api/v2/fax/7/costs?api_key=KEY&fax_number=123'' =
     ''https://fax.to/api/v2'' @ action_segment (CallGetFaxCost ''123'' 7) @ ''?api_key='' @ ''KEY''
       @ appended (CallGetFaxCost ''123'' 7) \<and>
   Contains ''https://fax.to/api/v2/fax/7/costs?api_key=KEY&fax_number=123'' ''KEY''"
proof -
  let ?resp = "\<lparr>StatusCode = 200, Body = Value JNull\<rparr>"
  let ?req = "\<lparr>Method = ''GET'',
               Url = ''https://fax.to/api/v2/fax/7/costs?api_key=KEY&fax_number=123'',
               Header = [(''Accept'', ''application/json'')], ReqBody = NoBody\<rparr>"
  let ?E = "example_world ?resp [] :: (rat, string) env"
  have key: "\<not> Contains ''KEY'' ''$action$''"
    by simp
  have sent: "Exchange ?req (Inr ?resp)
                \<in> set (snd (snd (invoke ?E (NewClient ''KEY'') (CallGetFaxCost ''123'' 7))))"
    by (simp add: snd_returning GetFaxCost_def lib_defs example_world_def NewClient_def
          rawBaseUrl_def Decode_def store_struct_def Sprintf_d_uint64_def decimal.simps)
  from request_url [OF key sent] key sent show ?thesis
    by simp
qed

text \<open>
  The claim as the spec words it fails in two places. With the key \<^verbatim>\<open>$action$\<close> the
  substitution of the action segment also rewrites the key, and the URL no longer holds
  the key. And the URL of \<^verbatim>\<open>GetFaxCost\<close> does not end in the key: the number follows
  it, joined by \<^verbatim>\<open>&\<close>, and no query stands between the action segment and
  \<^verbatim>\<open>?api_key=\<close>.
\<close>

theorem request_url_counterexample:
  "map Url (requests (snd (snd (invoke
       (example_world \<lparr>StatusCode = 200, Body = Value JNull\<rparr> [])
       (NewClient ''$action$'') CallGetBalance)))) =
     [''https://fax.to/api/v2/balance?api_key=/balance''] \<and>
   \<not> Contains ''https://fax.to/api/v2/balance?api_key=/balance'' ''$action$'' \<and>
   map Url (requests (snd (snd (invoke
       (example_world \<lparr>StatusCode = 200, Body = Value JNull\<rparr> [])
       (NewClient ''KEY'') (CallGetFaxCost ''123'' 7))))) =
     [''https://fax.to/api/v2/fax/7/costs?api_key=KEY&fax_number=123'']"
  by (simp add: snd_returning GetBalance_def GetFaxCost_def lib_defs example_world_def
        NewClient_def rawBaseUrl_def Decode_def store_struct_def Sprintf_d_uint64_def
        decimal.simps)

subsection \<open>Decoding\<close>

lemma Decode_error: "Decode st b target = Inl e \<Longrightarrow> e = DecodeError"
  by (auto simp: Decode_def split: body.splits option.splits)

lemma store_elements_fresh:
  "list_all2 (\<lambda>j v. st j zero = Some v) js vs \<Longrightarrow>
   store_elements st zero js [] = Some (vs, [])"
  by (induction js vs rule: list_all2_induct) simp_all

lemma store_slice_fresh:
  assumes "list_all2 (\<lambda>j v. st j zero = Some v) js vs"
  shows "store_slice st zero (JArray js) (Slice [] []) = Some (Slice vs [])"
  using assms store_elements_fresh [of st zero js vs]
  by (cases js) (auto simp: store_slice_def)

lemma store_slice_fresh_nil:
  assumes "list_all2 (\<lambda>j v. st j zero = Some v) js vs"
  shows "store_slice st zero (JArray js) NilSlice = Some (Slice vs [])"
  using assms store_elements_fresh [of st zero js vs]
  by (cases js) (auto simp: store_slice_def)

subsection \<open>The status field of the envelope\<close>

lemma checked_status:
  assumes "Exchange req (Inr resp) \<in> set (snd (snd (invoke E c call)))"
      and "StatusCode resp < 400"
  shows "case call of
        CallGetBalance \<Rightarrow>
          (\<forall>b. Decode (store_struct (store_balanceResponse (Codec E))) (Body resp)
                 (zero_balanceResponse (Codec E)) = Inr b \<and> br_Status b \<noteq> ''success'' \<longrightarrow>
               fst (invoke E c call) = Inl (RemoteStatusError (br_Status b)))
      | CallGetFaxHistory \<Rightarrow>
          (\<forall>h. Decode (store_struct (store_faxHistoryResponse (Codec E))) (Body resp)
                 zero_faxHistoryResponse = Inr h \<and> fh_Status h \<noteq> ''success'' \<longrightarrow>
               fst (invoke E c call) = Inl (RemoteStatusError (fh_Status h)))
      | CallUploadFile file \<Rightarrow>
          (\<forall>u. Decode (store_struct store_fileUploadResponse) (Body resp)
                 zero_fileUploadResponse = Inr u \<and> fu_Status u \<noteq> ''success'' \<longrightarrow>
               fst (invoke E c call) = Inl (RemoteStatusError (fu_Status u)))
      | CallGetFaxCost number docId \<Rightarrow>
          (\<forall>b. Decode (store_struct (store_faxCostResponse (Codec E))) (Body resp)
                 (zero_faxCostResponse (Codec E)) = Inr b \<longrightarrow>
               fst (invoke E c call) = Inr (Number (fc_Cost b)))
      | CallGetFaxStatus faxJobId \<Rightarrow>
          (\<forall>b. Decode (store_struct (store_faxStatusResponse (Codec E))) (Body resp)
                 (zero_faxStatusResponse (Codec E)) = Inr b \<longrightarrow>
               fst (invoke E c call) = Inr (Text (fs_Status b)))
      | CallGetFiles \<Rightarrow>
          (\<forall>fs. Decode (store_slice (store_struct (store_File (Codec E))) (zero_File (Codec E)))
                  (Body resp) (Slice [] []) = Inr fs \<longrightarrow>
               fst (invoke E c call) = Inr (Files fs))
      | CallSendFax number fileId \<Rightarrow> fst (invoke E c call) = Inr Nothing
      | CallDeleteFile fileId \<Rightarrow> fst (invoke E c call) = Inr Nothing"
  using assms
  by (cases call)
     (auto simp: fst_returning snd_returning op_defs lib_defs
           split: option.splits sum.splits if_splits)

lemma unchecked_status:
  assumes "call \<noteq> CallGetBalance" and "call \<noteq> CallGetFaxHistory"
      and "\<forall>file. call \<noteq> CallUploadFile file"
  shows "fst (invoke E c call) \<noteq> Inl (RemoteStatusError s)"
  using assms
  by (cases call)
     (auto simp: fst_returning snd_returning op_defs lib_defs Let_def
           dest: Decode_error
           split: option.splits sum.splits if_splits prod.splits)

text \<open>
  C2. In a world where the URL of the operation's request parses, the file to upload
  can be read, and the transport answers the request to that URL with a response whose
  status code is below 400: \<^verbatim>\<open>GetBalance\<close>, \<^verbatim>\<open>GetFaxHistory\<close> and
  \<^verbatim>\<open>UploadFile\<close> fail with \<open>RemoteStatusError\<close> of the envelope's status whenever
  the envelope decodes and its status is not \<^verbatim>\<open>success\<close>. \<^verbatim>\<open>GetFaxCost\<close>,
  \<^verbatim>\<open>GetFaxStatus\<close> and \<^verbatim>\<open>GetFiles\<close> return what they decoded, \<^verbatim>\<open>SendFax\<close> and
  \<^verbatim>\<open>DeleteFile\<close> return nothing, whatever status the body holds. And in every
  world these five never fail with \<open>RemoteStatusError\<close>.
\<close>

theorem remote_status_check:
  "(url_Parse E (ReplaceAll (baseUrl c) ''$action$'' (action_segment call) @ appended call)
      = None \<and>
    (\<forall>file. call = CallUploadFile file \<longrightarrow> (\<exists>content. ReadFile E file = Inr content)) \<and>
    (\<forall>req. Url req = ReplaceAll (baseUrl c) ''$action$'' (action_segment call) @ appended call
           \<longrightarrow> RoundTrip E (httpClient c) req = Inr resp) \<and>
    StatusCode resp < 400 \<longrightarrow>
     (case call of
        CallGetBalance \<Rightarrow>
          (\<forall>b. Decode (store_struct (store_balanceResponse (Codec E))) (Body resp)
                 (zero_balanceResponse (Codec E)) = Inr b \<and> br_Status b \<noteq> ''success'' \<longrightarrow>
               fst (invoke E c call) = Inl (RemoteStatusError (br_Status b)))
      | CallGetFaxHistory \<Rightarrow>
          (\<forall>h. Decode (store_struct (store_faxHistoryResponse (Codec E))) (Body resp)
                 zero_faxHistoryResponse = Inr h \<and> fh_Status h \<noteq> ''success'' \<longrightarrow>
               fst (invoke E c call) = Inl (RemoteStatusError (fh_Status h)))
      | CallUploadFile file \<Rightarrow>
          (\<forall>u. Decode (store_struct store_fileUploadResponse) (Body resp)
                 zero_fileUploadResponse = Inr u \<and> fu_Status u \<noteq> ''success'' \<longrightarrow>
               fst (invoke E c call) = Inl (RemoteStatusError (fu_Status u)))
      | CallGetFaxCost number docId \<Rightarrow>
          (\<forall>b. Decode (store_struct (store_faxCostResponse (Codec E))) (Body resp)
                 (zero_faxCostResponse (Codec E)) = Inr b \<longrightarrow>
               fst (invoke E c call) = Inr (Number (fc_Cost b)))
      | CallGetFaxStatus faxJobId \<Rightarrow>
          (\<forall>b. Decode (store_struct (store_faxStatusResponse (Codec E))) (Body resp)
                 (zero_faxStatusResponse (Codec E)) = Inr b \<longrightarrow>
               fst (invoke E c call) = Inr (Text (fs_Status b)))
      | CallGetFiles \<Rightarrow>
          (\<forall>fs. Decode (store_slice (store_struct (store_File (Codec E))) (zero_File (Codec E)))
                  (Body resp) (Slice [] []) = Inr fs \<longrightarrow>
               fst (invoke E c call) = Inr (Files fs))
      | CallSendFax number fileId \<Rightarrow> fst (invoke E c call) = Inr Nothing
      | CallDeleteFile fileId \<Rightarrow> fst (invoke E c call) = Inr Nothing)) \<and>
   (call \<noteq> CallGetBalance \<and> call \<noteq> CallGetFaxHistory \<and> (\<forall>file. call \<noteq> CallUploadFile file) \<longrightarrow>
     (\<forall>s. fst (invoke E c call) \<noteq> Inl (RemoteStatusError s)))"
proof (intro conjI impI)
  assume world:
    "url_Parse E (ReplaceAll (baseUrl c) ''$action$'' (action_segment call) @ appended call)
       = None \<and>
     (\<forall>file. call = CallUploadFile file \<longrightarrow> (\<exists>content. ReadFile E file = Inr content)) \<and>
     (\<forall>req. Url req = ReplaceAll (baseUrl c) ''$action$'' (action_segment call) @ appended call
            \<longrightarrow> RoundTrip E (httpClient c) req = Inr resp) \<and>
     StatusCode resp < 400"
  then obtain req where sent: "Exchange req (Inr resp) \<in> set (snd (snd (invoke E c call)))"
    using exchange_of_call [of E c call resp] by blast
  from world have ok: "StatusCode resp < 400"
    by simp
  show "case call of
        CallGetBalance \<Rightarrow>
          (\<forall>b. Decode (store_struct (store_balanceResponse (Codec E))) (Body resp)
                 (zero_balanceResponse (Codec E)) = Inr b \<and> br_Status b \<noteq> ''success'' \<longrightarrow>
               fst (invoke E c call) = Inl (RemoteStatusError (br_Status b)))
      | CallGetFaxHistory \<Rightarrow>
          (\<forall>h. Decode (store_struct (store_faxHistoryResponse (Codec E))) (Body resp)
                 zero_faxHistoryResponse = Inr h \<and> fh_Status h \<noteq> ''success'' \<longrightarrow>
               fst (invoke E c call) = Inl (RemoteStatusError (fh_Status h)))
      | CallUploadFile file \<Rightarrow>
          (\<forall>u. Decode (store_struct store_fileUploadResponse) (Body resp)
                 zero_fileUploadResponse = Inr u \<and> fu_Status u \<noteq> ''success'' \<longrightarrow>
               fst (invoke E c call) = Inl (RemoteStatusError (fu_Status u)))
      | CallGetFaxCost number docId \<Rightarrow>
          (\<forall>b. Decode (store_struct (store_faxCostResponse (Codec E))) (Body resp)
                 (zero_faxCostResponse (Codec E)) = Inr b \<longrightarrow>
               fst (invoke E c call) = Inr (Number (fc_Cost b)))
      | CallGetFaxStatus faxJobId \<Rightarrow>
          (\<forall>b. Decode (store_struct (store_faxStatusResponse (Codec E))) (Body resp)
                 (zero_faxStatusResponse (Codec E)) = Inr b \<longrightarrow>
               fst (invoke E c call) = Inr (Text (fs_Status b)))
      | CallGetFiles \<Rightarrow>
          (\<forall>fs. Decode (store_slice (store_struct (store_File (Codec E))) (zero_File (Codec E)))
                  (Body resp) (Slice [] []) = Inr fs \<longrightarrow>
               fst (invoke E c call) = Inr (Files fs))
      | CallSendFax number fileId \<Rightarrow> fst (invoke E c call) = Inr Nothing
      | CallDeleteFile fileId \<Rightarrow> fst (invoke E c call) = Inr Nothing"
    by (rule checked_status [OF sent ok])
next
  assume "call \<noteq> CallGetBalance \<and> call \<noteq> CallGetFaxHistory \<and>
          (\<forall>file. call \<noteq> CallUploadFile file)"
  then show "\<forall>s. fst (invoke E c call) \<noteq> Inl (RemoteStatusError s)"
    using unchecked_status [of call E c] by blast
qed

text \<open>
  All eight operations, each in a world that answers with status 200 and a body whose
  status is not \<^verbatim>\<open>success\<close>: the three that check it fail with that status, the
  five others return as if it were not there.
\<close>

theorem remote_status_check_witness:
  "let c = NewClient ''KEY'';
       W = (\<lambda>j. example_world \<lparr>StatusCode = 200, Body = Value j\<rparr> ''%PDF'')
   in fst (invoke (W (JObject [(''status'', JString ''error''), (''balance'', JNumber ''12.5'')]))
             c CallGetBalance) = Inl (RemoteStatusError ''error'') \<and>
      fst (invoke (W (JObject [(''status'', JString ''failed''), (''history'', JArray [])]))
             c CallGetFaxHistory) = Inl (RemoteStatusError ''failed'') \<and>
      fst (invoke (W (JObject [(''status'', JString ''error''), (''document_id'', JNumber ''42'')]))
             c (CallUploadFile ''a.pdf'')) = Inl (RemoteStatusError ''error'') \<and>
      fst (invoke (W (JObject [(''status'', JString ''error''), (''cost'', JNumber ''12.5'')]))
             c (CallGetFaxCost ''123'' 7)) = Inr (Number (25 / 2)) \<and>
      fst (invoke (W (JObject [(''status'', JString ''error''), (''message'', JString ''no'')]))
             c (CallGetFaxStatus 9)) = Inr (Text ''error'') \<and>
      fst (invoke (W (JArray [JObject [(''status'', JString ''error''), (''id'', JNumber ''7'')]]))
             c CallGetFiles) =
        Inr (Files (Slice [\<lparr>f_Id = 7, f_Filename = [], f_Pages = 0, f_Size = 0,
                              f_Uploaded = []\<rparr>] [])) \<and>
      fst (invoke (W (JObject [(''status'', JString ''error'')]))
             c (CallSendFax ''+4912345'' 7)) = Inr Nothing \<and>
      fst (invoke (W (JObject [(''status'', JString ''error'')]))
             c (CallDeleteFile 7)) = Inr Nothing \<and>
      fst (invoke (W (JObject [(''status'', JString ''error''), (''cost'', JNumber ''12.5'')]))
             c (CallGetFaxCost ''123'' 7)) \<noteq> Inl (RemoteStatusError ''error'')"
proof -
  let ?c = "NewClient ''KEY''"
  let ?j1 = "JObject [(''status'', JString ''error''), (''balance'', JNumber ''12.5'')]"
  let ?j2 = "JObject [(''status'', JString ''failed''), (''history'', JArray [])]"
  let ?j3 = "JObject [(''status'', JString ''error''), (''document_id'', JNumber ''42'')]"
  let ?j4 = "JObject [(''status'', JString ''error''), (''cost'', JNumber ''12.5'')]"
  let ?j5 = "JObject [(''status'', JString ''error''), (''message'', JString ''no'')]"
  let ?j6 = "JArray [JObject [(''status'', JString ''error''), (''id'', JNumber ''7'')]]"
  let ?j7 = "JObject [(''status'', JString ''error'')]"
  let ?W = "\<lambda>j. example_world \<lparr>StatusCode = 200, Body = Value j\<rparr> ''%PDF''"
  have d1: "Decode (store_struct (store_balanceResponse example_codec)) (Value ?j1)
              (zero_balanceResponse example_codec) =
            Inr \<lparr>br_Status = ''error'', br_Balance = 25 / 2, br_SubscriptionCreditAllowance = 0\<rparr>"
    by (simp add: example_codec_def decode_defs store_defs zero_defs)
  have d2: "Decode (store_struct (store_faxHistoryResponse example_codec)) (Value ?j2)
              zero_faxHistoryResponse =
            Inr \<lparr>fh_Status = ''failed'', fh_History = Slice [] []\<rparr>"
    by (simp add: decode_defs store_defs zero_defs)
  have d3: "Decode (store_struct store_fileUploadResponse) (Value ?j3) zero_fileUploadResponse =
            Inr \<lparr>fu_Status = ''error'', fu_DocumentId = 42, fu_TotalPages = 0\<rparr>"
    by (simp add: decode_defs store_defs zero_defs)
  have d4: "Decode (store_struct (store_faxCostResponse example_codec)) (Value ?j4)
              (zero_faxCostResponse example_codec) =
            Inr \<lparr>fc_Status = ''error'', fc_Cost = 25 / 2\<rparr>"
    by (simp add: example_codec_def decode_defs store_defs zero_defs)
  have d5: "Decode (store_struct (store_faxStatusResponse example_codec)) (Value ?j5)
              (zero_faxStatusResponse example_codec) =
            Inr \<lparr>fs_Status = ''error'', fs_Message = ''no'', fs_Balance = 0\<rparr>"
    by (simp add: example_codec_def decode_defs store_defs zero_defs)
  have d6: "Decode (store_slice (store_struct (store_File example_codec)) (zero_File example_codec))
              (Value ?j6) (Slice [] []) =
            Inr (Slice [\<lparr>f_Id = 7, f_Filename = [], f_Pages = 0, f_Size = 0,
                          f_Uploaded = []\<rparr>] [])"
    by (simp add: example_codec_def decode_defs store_defs zero_defs)
  have r1: "fst (invoke (?W ?j1) ?c CallGetBalance) = Inl (RemoteStatusError ''error'')"
    using remote_status_check [where E = "?W ?j1" and c = ?c and call = CallGetBalance
            and resp = "\<lparr>StatusCode = 200, Body = Value ?j1\<rparr>"] d1
    by (simp add: example_world_def)
  have r2: "fst (invoke (?W ?j2) ?c CallGetFaxHistory) = Inl (RemoteStatusError ''failed'')"
    using remote_status_check [where E = "?W ?j2" and c = ?c and call = CallGetFaxHistory
            and resp = "\<lparr>StatusCode = 200, Body = Value ?j2\<rparr>"] d2
    by (simp add: example_world_def)
  have r3: "fst (invoke (?W ?j3) ?c (CallUploadFile ''a.pdf'')) = Inl (RemoteStatusError ''error'')"
    using remote_status_check [where E = "?W ?j3" and c = ?c and call = "CallUploadFile ''a.pdf''"
            and resp = "\<lparr>StatusCode = 200, Body = Value ?j3\<rparr>"] d3
    by (simp add: example_world_def)
  have r4: "fst (invoke (?W ?j4) ?c (CallGetFaxCost ''123'' 7)) = Inr (Number (25 / 2))"
    using remote_status_check [where E = "?W ?j4" and c = ?c and call = "CallGetFaxCost ''123'' 7"
            and resp = "\<lparr>StatusCode = 200, Body = Value ?j4\<rparr>"] d4
    by (simp add: example_world_def)
  have r5: "fst (invoke (?W ?j5) ?c (CallGetFaxStatus 9)) = Inr (Text ''error'')"
    using remote_status_check [where E = "?W ?j5" and c = ?c and call = "CallGetFaxStatus 9"
            and resp = "\<lparr>StatusCode = 200, Body = Value ?j5\<rparr>"] d5
    by (simp add: example_world_def)
  have r6: "fst (invoke (?W ?j6) ?c CallGetFiles) =
              Inr (Files (Slice [\<lparr>f_Id = 7, f_Filename = [], f_Pages = 0, f_Size = 0,
                                   f_Uploaded = []\<rparr>] []))"
    using remote_status_check [where E = "?W ?j6" and c = ?c and call = CallGetFiles
            and resp = "\<lparr>StatusCode = 200, Body = Value ?j6\<rparr>"] d6
    by (simp add: example_world_def)
  have r7: "fst (invoke (?W ?j7) ?c (CallSendFax ''+4912345'' 7)) = Inr Nothing"
    using remote_status_check [where E = "?W ?j7" and c = ?c
            and call = "CallSendFax ''+4912345'' 7"
            and resp = "\<lparr>StatusCode = 200, Body = Value ?j7\<rparr>"]
    by (simp add: example_world_def)
  have r8: "fst (invoke (?W ?j7) ?c (CallDeleteFile 7)) = Inr Nothing"
    using remote_status_check [where E = "?W ?j7" and c = ?c and call = "CallDeleteFile 7"
            and resp = "\<lparr>StatusCode = 200, Body = Value ?j7\<rparr>"]
    by (simp add: example_world_def)
  have r9: "fst (invoke (?W ?j4) ?c (CallGetFaxCost ''123'' 7)) \<noteq> Inl (RemoteStatusError ''error'')"
    using remote_status_check [where E = "?W ?j4" and c = ?c and call = "CallGetFaxCost ''123'' 7"]
    by simp
  show ?thesis
    unfolding Let_def
    using r1 r2 r3 r4 r5 r6 r7 r8 r9 by blast
qed

subsection \<open>GetBalance\<close>

text \<open>
  C4. After an exchange answered with a status code below 400, \<^verbatim>\<open>GetBalance\<close>
  returns the balance of the envelope the body decodes to when the envelope's status
  is \<^verbatim>\<open>success\<close>, and fails with \<open>RemoteStatusError\<close> of that status otherwise.
  For the body \<^verbatim>\<open>{"status":"success","balance":lit,"subscription_credit_allowance":j}\<close>
  it returns the \<^verbatim>\<open>float64\<close> of the literal \<open>lit\<close>; for the body
  \<^verbatim>\<open>{"status":"error"}\<close> it fails with \<open>RemoteStatusError ''error''\<close>, and an
  error carries no balance.
\<close>

theorem GetBalance_result:
  assumes "Exchange req (Inr resp) \<in> set (snd (snd (GetBalance E c)))"
      and "StatusCode resp < 400"
  shows "(\<forall>b. Decode (store_struct (store_balanceResponse (Codec E))) (Body resp)
               (zero_balanceResponse (Codec E)) = Inr b \<longrightarrow>
             fst (GetBalance E c) =
               (if br_Status b = ''success'' then Inr (br_Balance b)
                else Inl (RemoteStatusError (br_Status b)))) \<and>
         (\<forall>lit x j. Body resp = Value (JObject [(''status'', JString ''success''),
                        (''balance'', JNumber lit), (''subscription_credit_allowance'', j)]) \<and>
                    ParseFloat (Codec E) lit = Some x \<longrightarrow>
             fst (GetBalance E c) = Inr x) \<and>
         (Body resp = Value (JObject [(''status'', JString ''error'')]) \<longrightarrow>
             fst (GetBalance E c) = Inl (RemoteStatusError ''error''))"
proof (intro conjI allI impI)
  fix b
  assume "Decode (store_struct (store_balanceResponse (Codec E))) (Body resp)
               (zero_balanceResponse (Codec E)) = Inr b"
  with assms show "fst (GetBalance E c) =
               (if br_Status b = ''success'' then Inr (br_Balance b)
                else Inl (RemoteStatusError (br_Status b)))"
    by (auto simp: GetBalance_def lib_defs split: option.splits sum.splits if_splits)
next
  fix lit x j
  assume b: "Body resp = Value (JObject [(''status'', JString ''success''),
                        (''balance'', JNumber lit), (''subscription_credit_allowance'', j)]) \<and>
                    ParseFloat (Codec E) lit = Some x"
  then have "Decode (store_struct (store_balanceResponse (Codec E))) (Body resp)
               (zero_balanceResponse (Codec E)) =
             Inr \<lparr>br_Status = ''success'', br_Balance = x,
                  br_SubscriptionCreditAllowance = zero_float64 (Codec E)\<rparr>"
    by (simp add: decode_defs store_balanceResponse_def zero_balanceResponse_def)
  with assms show "fst (GetBalance E c) = Inr x"
    by (auto simp: GetBalance_def lib_defs split: option.splits sum.splits if_splits)
next
  assume "Body resp = Value (JObject [(''status'', JString ''error'')])"
  then have "Decode (store_struct (store_balanceResponse (Codec E))) (Body resp)
               (zero_balanceResponse (Codec E)) =
             Inr \<lparr>br_Status = ''error'', br_Balance = zero_float64 (Codec E),
                  br_SubscriptionCreditAllowance = zero_float64 (Codec E)\<rparr>"
    by (simp add: decode_defs store_balanceResponse_def zero_balanceResponse_def)
  with assms show "fst (GetBalance E c) = Inl (RemoteStatusError ''error'')"
    by (auto simp: GetBalance_def lib_defs split: option.splits sum.splits if_splits)
qed

theorem GetBalance_result_witness:
  "fst (GetBalance
          (example_world
             \<lparr>StatusCode = 200,
              Body = Value (JObject [(''status'', JString ''success''), (''balance'', JNumber ''12.5''),
                                     (''subscription_credit_allowance'', JNumber ''0'')])\<rparr> [])
          (NewClient ''KEY'')) = Inr (25 / 2) \<and>
   fst (GetBalance
          (example_world
             \<lparr>StatusCode = 200, Body = Value (JObject [(''status'', JString ''error'')])\<rparr> [])
          (NewClient ''KEY'')) = Inl (RemoteStatusError ''error'')"
proof -
  let ?c = "NewClient ''KEY''"
  let ?q = "\<lparr>Method = ''GET'', Url = ''https://fax.to/api/v2/balance?api_key=KEY'',
              Header = [(''Content-Type'', ''application/json'')], ReqBody = NoBody\<rparr>"
  let ?r1 = "\<lparr>StatusCode = 200,
               Body = Value (JObject [(''status'', JString ''success''), (''balance'', JNumber ''12.5''),
                                      (''subscription_credit_allowance'', JNumber ''0'')])\<rparr>"
  let ?r2 = "\<lparr>StatusCode = 200, Body = Value (JObject [(''status'', JString ''error'')])\<rparr>"
  let ?E1 = "example_world ?r1 []"
  let ?E2 = "example_world ?r2 []"
  have sent1: "Exchange ?q (Inr ?r1) \<in> set (snd (snd (GetBalance ?E1 ?c)))"
    by (simp add: GetBalance_def lib_defs example_defs decode_defs
          store_balanceResponse_def zero_balanceResponse_def)
  have sent2: "Exchange ?q (Inr ?r2) \<in> set (snd (snd (GetBalance ?E2 ?c)))"
    by (simp add: GetBalance_def lib_defs example_defs decode_defs
          store_balanceResponse_def zero_balanceResponse_def)
  have parse: "ParseFloat (Codec ?E1) ''12.5'' = Some (25 / 2)"
    by (simp add: example_defs)
  have "fst (GetBalance ?E1 ?c) = Inr (25 / 2)"
    using GetBalance_result [of ?q ?r1 ?E1 ?c] sent1 parse by simp
  moreover have "fst (GetBalance ?E2 ?c) = Inl (RemoteStatusError ''error'')"
    using GetBalance_result [of ?q ?r2 ?E2 ?c] sent2 by simp
  ultimately show ?thesis
    by simp
qed

subsection \<open>GetFaxHistory\<close>

text \<open>
  C5. After an exchange answered with a status code below 400, \<^verbatim>\<open>GetFaxHistory\<close>
  returns the history of the envelope the body decodes to when the envelope's status
  is \<^verbatim>\<open>success\<close>. For the body \<^verbatim>\<open>{"status":"success","history":[...]}\<close> the
  result holds one entry for each element of the array, the entry that element decodes
  to, in the order of the array; for an empty array it is the empty slice, not an
  error.
\<close>

theorem GetFaxHistory_result:
  assumes "Exchange req (Inr resp) \<in> set (snd (snd (GetFaxHistory E c)))"
      and "StatusCode resp < 400"
  shows "(\<forall>fh. Decode (store_struct (store_faxHistoryResponse (Codec E))) (Body resp)
                zero_faxHistoryResponse = Inr fh \<and> fh_Status fh = ''success'' \<longrightarrow>
              fst (GetFaxHistory E c) = Inr (fh_History fh)) \<and>
         (\<forall>js es. Body resp = Value (JObject [(''status'', JString ''success''),
                                                (''history'', JArray js)]) \<and>
                   list_all2 (\<lambda>j e. store_struct (store_FaxHistoryEntry (Codec E)) j
                                       (zero_FaxHistoryEntry (Codec E)) = Some e) js es \<longrightarrow>
              fst (GetFaxHistory E c) = Inr (Slice es []) \<and> length es = length js) \<and>
         (Body resp = Value (JObject [(''status'', JString ''success''), (''history'', JArray [])]) \<longrightarrow>
              fst (GetFaxHistory E c) = Inr (Slice [] []))"
proof (intro conjI allI impI)
  fix fh
  assume "Decode (store_struct (store_faxHistoryResponse (Codec E))) (Body resp)
                zero_faxHistoryResponse = Inr fh \<and> fh_Status fh = ''success''"
  with assms show "fst (GetFaxHistory E c) = Inr (fh_History fh)"
    by (auto simp: GetFaxHistory_def lib_defs split: option.splits sum.splits if_splits)
next
  fix js es
  assume b: "Body resp = Value (JObject [(''status'', JString ''success''),
                                                (''history'', JArray js)]) \<and>
                   list_all2 (\<lambda>j e. store_struct (store_FaxHistoryEntry (Codec E)) j
                                       (zero_FaxHistoryEntry (Codec E)) = Some e) js es"
  then have s: "store_slice (store_struct (store_FaxHistoryEntry (Codec E)))
                  (zero_FaxHistoryEntry (Codec E)) (JArray js) NilSlice = Some (Slice es [])"
    using store_slice_fresh_nil [of "store_struct (store_FaxHistoryEntry (Codec E))"
            "zero_FaxHistoryEntry (Codec E)" js es]
    by simp
  have "Decode (store_struct (store_faxHistoryResponse (Codec E))) (Body resp)
          zero_faxHistoryResponse = Inr \<lparr>fh_Status = ''success'', fh_History = Slice es []\<rparr>"
    using b s
    by (simp add: Decode_def store_struct_def match_name_def upper_def store_string_def
          store_faxHistoryResponse_def zero_faxHistoryResponse_def)
  with assms show "fst (GetFaxHistory E c) = Inr (Slice es [])"
    by (auto simp: GetFaxHistory_def lib_defs split: option.splits sum.splits if_splits)
  from b show "length es = length js"
    by (auto dest: list_all2_lengthD)
next
  assume "Body resp = Value (JObject [(''status'', JString ''success''), (''history'', JArray [])])"
  then have "Decode (store_struct (store_faxHistoryResponse (Codec E))) (Body resp)
          zero_faxHistoryResponse = Inr \<lparr>fh_Status = ''success'', fh_History = Slice [] []\<rparr>"
    by (simp add: decode_defs store_faxHistoryResponse_def zero_faxHistoryResponse_def)
  with assms show "fst (GetFaxHistory E c) = Inr (Slice [] [])"
    by (auto simp: GetFaxHistory_def lib_defs split: option.splits sum.splits if_splits)
qed

theorem GetFaxHistory_result_witness:
  "fst (GetFaxHistory
          (example_world
             \<lparr>StatusCode = 200,
              Body = Value (JObject
                [(''status'', JString ''success''),
                 (''history'', JArray
                    [JObject [(''id'', JNumber ''2''), (''recipient'', JString ''+4912345''),
                              (''status'', JString ''sent'')],
                     JObject [(''id'', JNumber ''1''), (''document_id'', JNumber ''7''),
                              (''created'', JObject [(''timezone'', JString ''UTC'')])]])])\<rparr> [])
          (NewClient ''KEY'')) =
     Inr (Slice
       [\<lparr>he_Id = 2, he_Created = \<lparr>cr_Date = [], cr_DateTimeZone = 0, cr_Timezone = []\<rparr>,
         he_DocumentId = 0, he_Document = [], he_Recipient = ''+4912345'', he_Status = ''sent''\<rparr>,
        \<lparr>he_Id = 1, he_Created = \<lparr>cr_Date = [], cr_DateTimeZone = 0, cr_Timezone = ''UTC''\<rparr>,
         he_DocumentId = 7, he_Document = [], he_Recipient = [], he_Status = []\<rparr>] []) \<and>
   fst (GetFaxHistory
          (example_world
             \<lparr>StatusCode = 200,
              Body = Value (JObject [(''status'', JString ''success''), (''history'', JArray [])])\<rparr> [])
          (NewClient ''KEY'')) = Inr (Slice [] [])"
proof -
  let ?c = "NewClient ''KEY''"
  let ?q = "\<lparr>Method = ''GET'', Url = ''https://fax.to/api/v2/fax-history?api_key=KEY'',
              Header = [(''Accept'', ''application/json'')], ReqBody = NoBody\<rparr>"
  let ?j1 = "JObject [(''id'', JNumber ''2''), (''recipient'', JString ''+4912345''),
                      (''status'', JString ''sent'')]"
  let ?j2 = "JObject [(''id'', JNumber ''1''), (''document_id'', JNumber ''7''),
                      (''created'', JObject [(''timezone'', JString ''UTC'')])]"
  let ?e1 = "\<lparr>he_Id = 2, he_Created = \<lparr>cr_Date = [], cr_DateTimeZone = 0, cr_Timezone = []\<rparr>,
         he_DocumentId = 0, he_Document = [], he_Recipient = ''+4912345'', he_Status = ''sent''\<rparr>"
  let ?e2 = "\<lparr>he_Id = 1, he_Created = \<lparr>cr_Date = [], cr_DateTimeZone = 0, cr_Timezone = ''UTC''\<rparr>,
         he_DocumentId = 7, he_Document = [], he_Recipient = [], he_Status = []\<rparr>"
  let ?r1 = "\<lparr>StatusCode = 200,
               Body = Value (JObject [(''status'', JString ''success''),
                                      (''history'', JArray [?j1, ?j2])])\<rparr>"
  let ?r2 = "\<lparr>StatusCode = 200,
               Body = Value (JObject [(''status'', JString ''success''), (''history'', JArray [])])\<rparr>"
  let ?E1 = "example_world ?r1 []"
  let ?E2 = "example_world ?r2 []"
  have d1: "store_struct (store_FaxHistoryEntry (Codec ?E1)) ?j1 (zero_FaxHistoryEntry (Codec ?E1))
              = Some ?e1"
    by (simp add: example_defs decode_defs store_defs zero_defs)
  have d2: "store_struct (store_FaxHistoryEntry (Codec ?E1)) ?j2 (zero_FaxHistoryEntry (Codec ?E1))
              = Some ?e2"
    by (simp add: example_defs decode_defs store_defs zero_defs)
  have entries: "list_all2 (\<lambda>j e. store_struct (store_FaxHistoryEntry (Codec ?E1)) j
                    (zero_FaxHistoryEntry (Codec ?E1)) = Some e) [?j1, ?j2] [?e1, ?e2]"
    using d1 d2 by simp
  have sent1: "Exchange ?q (Inr ?r1) \<in> set (snd (snd (GetFaxHistory ?E1 ?c)))"
    by (simp add: GetFaxHistory_def lib_defs example_defs Decode_def
          split: option.splits sum.splits)
  have sent2: "Exchange ?q (Inr ?r2) \<in> set (snd (snd (GetFaxHistory ?E2 ?c)))"
    by (simp add: GetFaxHistory_def lib_defs example_defs Decode_def
          split: option.splits sum.splits)
  have "fst (GetFaxHistory ?E1 ?c) = Inr (Slice [?e1, ?e2] [])"
    using GetFaxHistory_result [of ?q ?r1 ?E1 ?c] sent1 entries by simp
  moreover have "fst (GetFaxHistory ?E2 ?c) = Inr (Slice [] [])"
    using GetFaxHistory_result [of ?q ?r2 ?E2 ?c] sent2 by simp
  ultimately show ?thesis
    by simp
qed

subsection \<open>UploadFile\<close>

text \<open>
  C6. When the file can be read and the URL parses, \<^verbatim>\<open>UploadFile\<close> sends exactly
  one request, a POST whose body is the bytes of the file as read, whatever they are
  (none for a file of 0 bytes), with no header set. After an exchange answered with a
  status code below 400 and an envelope with the status \<^verbatim>\<open>success\<close>, it returns the
  envelope's document id.
\<close>

theorem UploadFile_request_and_result:
  "(ReadFile E file = Inr content \<and>
    url_Parse E (ReplaceAll (baseUrl c) ''$action$'' ''/files'') = None \<longrightarrow>
      requests (snd (snd (UploadFile E c file))) =
        [\<lparr>Method = ''POST'', Url = ReplaceAll (baseUrl c) ''$action$'' ''/files'',
          Header = [], ReqBody = RawBody content\<rparr>]) \<and>
   (Exchange req (Inr resp) \<in> set (snd (snd (UploadFile E c file))) \<and>
    StatusCode resp < 400 \<and>
    Decode (store_struct store_fileUploadResponse) (Body resp) zero_fileUploadResponse = Inr fu \<and>
    fu_Status fu = ''success'' \<longrightarrow>
      fst (UploadFile E c file) = Inr (fu_DocumentId fu))"
  by (auto simp: UploadFile_def lib_defs split: option.splits sum.splits if_splits)

theorem UploadFile_request_and_result_witness:
  "requests (snd (snd (UploadFile
       (example_world
          \<lparr>StatusCode = 200,
           Body = Value (JObject [(''status'', JString ''success''), (''document_id'', JNumber ''42''),
                                  (''total_pages'', JNumber ''0'')])\<rparr> [])
       (NewClient ''KEY'') ''empty.pdf''))) =
     [\<lparr>Method = ''POST'', Url = ''https://fax.to/api/v2/files?api_key=KEY'', Header = [],
       ReqBody = RawBody []\<rparr>] \<and>
   fst (UploadFile
       (example_world
          \<lparr>StatusCode = 200,
           Body = Value (JObject [(''status'', JString ''success''), (''document_id'', JNumber ''42''),
                                  (''total_pages'', JNumber ''0'')])\<rparr> [])
       (NewClient ''KEY'') ''empty.pdf'') = Inr 42"
proof -
  let ?c = "NewClient ''KEY''"
  let ?q = "\<lparr>Method = ''POST'', Url = ''https://fax.to/api/v2/files?api_key=KEY'', Header = [],
              ReqBody = RawBody []\<rparr>"
  let ?r = "\<lparr>StatusCode = 200,
              Body = Value (JObject [(''status'', JString ''success''),
                                     (''document_id'', JNumber ''42''),
                                     (''total_pages'', JNumber ''0'')])\<rparr>"
  let ?E = "example_world ?r []"
  let ?fu = "\<lparr>fu_Status = ''success'', fu_DocumentId = 42, fu_TotalPages = 0\<rparr>"
  have url: "ReplaceAll (baseUrl ?c) ''$action$'' ''/files'' = ''https://fax.to/api/v2/files?api_key=KEY''"
    by (simp add: example_defs)
  have readable: "ReadFile ?E ''empty.pdf'' = Inr []"
    by (simp add: example_defs)
  have parses: "url_Parse ?E (ReplaceAll (baseUrl ?c) ''$action$'' ''/files'') = None"
    by (simp add: example_defs)
  have dec: "Decode (store_struct store_fileUploadResponse) (Body ?r) zero_fileUploadResponse
               = Inr ?fu"
    by (simp add: decode_defs store_defs zero_defs)
  have sent: "Exchange ?q (Inr ?r) \<in> set (snd (snd (UploadFile ?E ?c ''empty.pdf'')))"
    by (simp add: UploadFile_def lib_defs example_defs Decode_def
          split: option.splits sum.splits)
  have "requests (snd (snd (UploadFile ?E ?c ''empty.pdf''))) = [?q]"
    using UploadFile_request_and_result [of ?E "''empty.pdf''" "[]" ?c] readable parses url
    by simp
  moreover have "fst (UploadFile ?E ?c ''empty.pdf'') = Inr 42"
    using UploadFile_request_and_result [of ?E "''empty.pdf''" _ ?c ?q ?r ?fu] sent dec
    by simp
  ultimately show ?thesis
    by simp
qed

subsection \<open>GetFiles\<close>

text \<open>
  C7. After an exchange answered with a status code below 400 and a body that is a JSON
  array whose elements decode to files, \<^verbatim>\<open>GetFiles\<close> returns a slice with exactly
  one file for each element, the file that element decodes to, in the order of the
  array; so for the empty array the empty slice.
\<close>

theorem GetFiles_array:
  assumes "Exchange req (Inr resp) \<in> set (snd (snd (GetFiles E c)))"
      and "StatusCode resp < 400"
      and "Body resp = Value (JArray js)"
      and "list_all2 (\<lambda>j f. store_struct (store_File (Codec E)) j (zero_File (Codec E)) = Some f)
             js fs"
  shows "fst (GetFiles E c) = Inr (Slice fs []) \<and> length fs = length js"
proof -
  have "store_slice (store_struct (store_File (Codec E))) (zero_File (Codec E)) (JArray js)
          (Slice [] []) = Some (Slice fs [])"
    using store_slice_fresh [of "store_struct (store_File (Codec E))" "zero_File (Codec E)" js fs]
      assms(4) by simp
  moreover have "length fs = length js"
    using assms(4) by (simp add: list_all2_lengthD)
  ultimately show ?thesis
    using assms(1-3)
    by (auto simp: GetFiles_def lib_defs Decode_def
             split: option.splits sum.splits if_splits)
qed

theorem GetFiles_array_witness:
  "fst (GetFiles
          (example_world
             \<lparr>StatusCode = 200,
              Body = Value (JArray
                [JObject [(''id'', JNumber ''3''), (''filename'', JString ''c.pdf'')],
                 JObject [(''id'', JNumber ''1''), (''pages'', JNumber ''2''),
                          (''uploaded'', JString ''2020-05-01T10:00:00Z'')],
                 JObject [(''id'', JNumber ''2''), (''size'', JNumber ''1024'')]])\<rparr> [])
          (NewClient ''KEY'')) =
     Inr (Slice
       [\<lparr>f_Id = 3, f_Filename = ''c.pdf'', f_Pages = 0, f_Size = 0, f_Uploaded = []\<rparr>,
        \<lparr>f_Id = 1, f_Filename = [], f_Pages = 2, f_Size = 0,
         f_Uploaded = ''2020-05-01T10:00:00Z''\<rparr>,
        \<lparr>f_Id = 2, f_Filename = [], f_Pages = 0, f_Size = 1024, f_Uploaded = []\<rparr>] []) \<and>
   fst (GetFiles (example_world \<lparr>StatusCode = 200, Body = Value (JArray [])\<rparr> [])
          (NewClient ''KEY'')) = Inr (Slice [] [])"
proof -
  let ?c = "NewClient ''KEY''"
  let ?q = "\<lparr>Method = ''GET'', Url = ''https://fax.to/api/v2/files?api_key=KEY'',
              Header = [(''Accept'', ''application/json'')], ReqBody = NoBody\<rparr>"
  let ?j1 = "JObject [(''id'', JNumber ''3''), (''filename'', JString ''c.pdf'')]"
  let ?j2 = "JObject [(''id'', JNumber ''1''), (''pages'', JNumber ''2''),
                      (''uploaded'', JString ''2020-05-01T10:00:00Z'')]"
  let ?j3 = "JObject [(''id'', JNumber ''2''), (''size'', JNumber ''1024'')]"
  let ?f1 = "\<lparr>f_Id = 3, f_Filename = ''c.pdf'', f_Pages = 0, f_Size = 0, f_Uploaded = []\<rparr>"
  let ?f2 = "\<lparr>f_Id = 1, f_Filename = [], f_Pages = 2, f_Size = 0,
               f_Uploaded = ''2020-05-01T10:00:00Z''\<rparr>"
  let ?f3 = "\<lparr>f_Id = 2, f_Filename = [], f_Pages = 0, f_Size = 1024, f_Uploaded = []\<rparr>"
  let ?r1 = "\<lparr>StatusCode = 200, Body = Value (JArray [?j1, ?j2, ?j3])\<rparr>"
  let ?r2 = "\<lparr>StatusCode = 200, Body = Value (JArray [])\<rparr>"
  let ?E1 = "example_world ?r1 []"
  let ?E2 = "example_world ?r2 []"
  have d1: "store_struct (store_File (Codec ?E1)) ?j1 (zero_File (Codec ?E1)) = Some ?f1"
    by (simp add: example_defs decode_defs store_defs zero_defs)
  have d2: "store_struct (store_File (Codec ?E1)) ?j2 (zero_File (Codec ?E1)) = Some ?f2"
    by (simp add: example_defs decode_defs store_defs zero_defs)
  have d3: "store_struct (store_File (Codec ?E1)) ?j3 (zero_File (Codec ?E1)) = Some ?f3"
    by (simp add: example_defs decode_defs store_defs zero_defs)
  have files: "list_all2 (\<lambda>j f. store_struct (store_File (Codec ?E1)) j (zero_File (Codec ?E1))
                  = Some f) [?j1, ?j2, ?j3] [?f1, ?f2, ?f3]"
    using d1 d2 d3 by simp
  have none: "list_all2 (\<lambda>j f. store_struct (store_File (Codec ?E2)) j (zero_File (Codec ?E2))
                  = Some f) [] []"
    by simp
  have sent1: "Exchange ?q (Inr ?r1) \<in> set (snd (snd (GetFiles ?E1 ?c)))"
    by (simp add: GetFiles_def lib_defs example_defs Decode_def
          split: option.splits sum.splits)
  have sent2: "Exchange ?q (Inr ?r2) \<in> set (snd (snd (GetFiles ?E2 ?c)))"
    by (simp add: GetFiles_def lib_defs example_defs Decode_def
          split: option.splits sum.splits)
  have "fst (GetFiles ?E1 ?c) = Inr (Slice [?f1, ?f2, ?f3] [])"
    using GetFiles_array [of ?q ?r1 ?E1 ?c "[?j1, ?j2, ?j3]" "[?f1, ?f2, ?f3]"] sent1 files
    by simp
  moreover have "fst (GetFiles ?E2 ?c) = Inr (Slice [] [])"
    using GetFiles_array [of ?q ?r2 ?E2 ?c "[]" "[]"] sent2 none by simp
  ultimately show ?thesis
    by simp
qed

text \<open>
  C10, at the input it is about. \<^verbatim>\<open>GetFiles\<close> starts from the empty slice
  \<^verbatim>\<open>make([]File, 0)\<close>, but "the JSON null value unmarshals into an interface, map,
  pointer, or slice by setting that Go value to nil": after an exchange answered with a
  status code below 400 and the body \<^verbatim>\<open>null\<close>, the call succeeds and returns the
  \<^verbatim>\<open>nil\<close> slice, not the empty slice it started from.
\<close>

theorem GetFiles_null_body:
  assumes "Exchange req (Inr resp) \<in> set (snd (snd (GetFiles E c)))"
      and "StatusCode resp < 400"
      and "Body resp = Value JNull"
  shows "fst (GetFiles E c) = Inr NilSlice"
  using assms
  by (auto simp: GetFiles_def lib_defs Decode_def store_slice_def
           split: option.splits sum.splits if_splits)

theorem GetFiles_null_body_witness:
  "fst (GetFiles (example_world \<lparr>StatusCode = 200, Body = Value JNull\<rparr> []) (NewClient ''KEY''))
     = Inr NilSlice \<and>
   (NilSlice :: string File slice) \<noteq> Slice [] []"
proof -
  let ?c = "NewClient ''KEY''"
  let ?q = "\<lparr>Method = ''GET'', Url = ''https://fax.to/api/v2/files?api_key=KEY'',
              Header = [(''Accept'', ''application/json'')], ReqBody = NoBody\<rparr>"
  let ?r = "\<lparr>StatusCode = 200, Body = Value JNull\<rparr>"
  let ?E = "example_world ?r []"
  have sent: "Exchange ?q (Inr ?r) \<in> set (snd (snd (GetFiles ?E ?c)))"
    by (simp add: GetFiles_def lib_defs example_defs Decode_def
          split: option.splits sum.splits)
  from GetFiles_null_body [of ?q ?r ?E ?c] sent show ?thesis
    by simp
qed

subsection \<open>SendFax and DeleteFile\<close>

text \<open>
  C8. After an exchange answered with a status code below 400, \<^verbatim>\<open>SendFax\<close> and
  \<^verbatim>\<open>DeleteFile\<close> return without error and without a value; the call has no
  decoding among its events, and the result is the same for every body the response
  could carry.
\<close>

theorem SendFax_DeleteFile_success:
  "(Exchange req (Inr resp) \<in> set (snd (snd (SendFax E c number fileId))) \<and>
    StatusCode resp < 400 \<longrightarrow>
      fst (SendFax E c number fileId) = Inr () \<and>
      DecodeBody \<notin> set (snd (snd (SendFax E c number fileId))) \<and>
      (\<forall>b. fst (SendFax (answering E (resp\<lparr>Body := b\<rparr>)) c number fileId) = Inr ())) \<and>
   (Exchange req (Inr resp) \<in> set (snd (snd (DeleteFile E c fileId))) \<and>
    StatusCode resp < 400 \<longrightarrow>
      fst (DeleteFile E c fileId) = Inr () \<and>
      DecodeBody \<notin> set (snd (snd (DeleteFile E c fileId))) \<and>
      (\<forall>b. fst (DeleteFile (answering E (resp\<lparr>Body := b\<rparr>)) c fileId) = Inr ()))"
  by (auto simp: SendFax_def DeleteFile_def lib_defs answering_def
           split: option.splits sum.splits if_splits)

theorem SendFax_DeleteFile_success_witness:
  "snd (snd (SendFax (example_world \<lparr>StatusCode = 302, Body = Unreadable\<rparr> [])
               (NewClient ''KEY'') ''+4912345'' 7)) =
     [Exchange
        \<lparr>Method = ''POST'', Url = ''https://fax.to/api/v2/fax?api_key=KEY'',
         Header = [(''Content-Type'', ''application/x-www-form-urlencoded'')],
         ReqBody = FormBody [(''fax_number'', [''+4912345'']), (''document_id'', [''7''])]\<rparr>
        (Inr \<lparr>StatusCode = 302, Body = Unreadable\<rparr>)] \<and>
   fst (SendFax (example_world \<lparr>StatusCode = 302, Body = Unreadable\<rparr> [])
          (NewClient ''KEY'') ''+4912345'' 7) = Inr () \<and>
   snd (snd (DeleteFile (example_world \<lparr>StatusCode = 204, Body = Value (JString ''gone'')\<rparr> [])
               (NewClient ''KEY'') 7)) =
     [Exchange
        \<lparr>Method = ''DELETE'', Url = ''https://fax.to/api/v2/files/7?api_key=KEY'',
         Header = [(''Accept'', ''application/json'')], ReqBody = NoBody\<rparr>
        (Inr \<lparr>StatusCode = 204, Body = Value (JString ''gone'')\<rparr>),
      CloseBody] \<and>
   fst (DeleteFile (example_world \<lparr>StatusCode = 204, Body = Value (JString ''gone'')\<rparr> [])
          (NewClient ''KEY'') 7) = Inr ()"
proof -
  let ?c = "NewClient ''KEY''"
  let ?r1 = "\<lparr>StatusCode = 302, Body = Unreadable\<rparr>"
  let ?r2 = "\<lparr>StatusCode = 204, Body = Value (JString ''gone'')\<rparr>"
  let ?q1 = "\<lparr>Method = ''POST'', Url = ''https://fax.to/api/v2/fax?api_key=KEY'',
         Header = [(''Content-Type'', ''application/x-www-form-urlencoded'')],
         ReqBody = FormBody [(''fax_number'', [''+4912345'']), (''document_id'', [''7''])]\<rparr>"
  let ?q2 = "\<lparr>Method = ''DELETE'', Url = ''https://fax.to/api/v2/files/7?api_key=KEY'',
         Header = [(''Accept'', ''application/json'')], ReqBody = NoBody\<rparr>"
  let ?E1 = "example_world ?r1 []"
  let ?E2 = "example_world ?r2 []"
  have ev1: "snd (snd (SendFax ?E1 ?c ''+4912345'' 7)) = [Exchange ?q1 (Inr ?r1)]"
    by (simp add: SendFax_def lib_defs example_defs Sprintf_d_uint64_def decimal.simps)
  have ev2: "snd (snd (DeleteFile ?E2 ?c 7)) = [Exchange ?q2 (Inr ?r2), CloseBody]"
    by (simp add: DeleteFile_def lib_defs example_defs Sprintf_d_uint64_def decimal.simps)
  have "fst (SendFax ?E1 ?c ''+4912345'' 7) = Inr ()"
    using SendFax_DeleteFile_success [where req = ?q1 and resp = ?r1 and E = ?E1 and c = ?c
            and number = "''+4912345''" and fileId = 7] ev1 by simp
  moreover have "fst (DeleteFile ?E2 ?c 7) = Inr ()"
    using SendFax_DeleteFile_success [where req = ?q2 and resp = ?r2 and E = ?E2 and c = ?c
            and fileId = 7] ev2 by simp
  ultimately show ?thesis
    using ev1 ev2 by simp
qed

end
